theory Spec2Isabelle
  imports Complex_Main "HOL-Library.Log_Nat"
begin

section \<open>Data model\<close>

text \<open>
  The kernel computes on single-precision floats.  The type of floats is left as a type
  parameter \<open>'f\<close> that only carries the operator symbols of the source (\<open>+\<close>, \<open>-\<close>,
  \<open>*\<close>, \<open>/\<close>, \<open><\<close>, \<open>\<le>\<close>, \<open>0\<close>, \<open>1\<close>, unary minus, \<open>abs\<close>) through the
  syntactic type classes of HOL, which have no axioms: nothing is assumed about rounding,
  infinities or NaN.  Whatever a theorem needs of the arithmetic is a hypothesis of it.
  Section \<open>A binary32 instance\<close> gives the IEEE 754 single-precision instance on which the
  definitions are run.
\<close>

datatype 'f float4 = make_float4 (f4x: 'f) (f4y: 'f) (f4z: 'f) (f4w: 'f)

datatype 'f Vec3f = Vec3f (v3x: 'f) (v3y: 'f) (v3z: 'f)

text \<open>
  \<open>Vec3f\<close> and its operators come from a header that is not part of the sources at hand
  (\<open>mymath.h\<close>, \<open>cutil_math.h\<close>); they are the component-wise operations.
\<close>

definition vadd :: "'f::plus Vec3f \<Rightarrow> 'f Vec3f \<Rightarrow> 'f Vec3f" where
  "vadd a b = Vec3f (v3x a + v3x b) (v3y a + v3y b) (v3z a + v3z b)"

definition vsub :: "'f::minus Vec3f \<Rightarrow> 'f Vec3f \<Rightarrow> 'f Vec3f" where
  "vsub a b = Vec3f (v3x a - v3x b) (v3y a - v3y b) (v3z a - v3z b)"

definition vmul :: "'f::times Vec3f \<Rightarrow> 'f Vec3f \<Rightarrow> 'f Vec3f" where
  "vmul a b = Vec3f (v3x a * v3x b) (v3y a * v3y b) (v3z a * v3z b)"

definition vscale :: "'f::times Vec3f \<Rightarrow> 'f \<Rightarrow> 'f Vec3f" where
  "vscale a k = Vec3f (v3x a * k) (v3y a * k) (v3z a * k)"

definition scalev :: "'f::times \<Rightarrow> 'f Vec3f \<Rightarrow> 'f Vec3f" where
  "scalev k a = Vec3f (k * v3x a) (k * v3y a) (k * v3z a)"

definition vdiv :: "'f::inverse Vec3f \<Rightarrow> 'f Vec3f \<Rightarrow> 'f Vec3f" where
  "vdiv a b = Vec3f (v3x a / v3x b) (v3y a / v3y b) (v3z a / v3z b)"

definition dot :: "'f::{plus,times} Vec3f \<Rightarrow> 'f Vec3f \<Rightarrow> 'f" where
  "dot a b = v3x a * v3x b + v3y a * v3y b + v3z a * v3z b"

definition cross :: "'f::{minus,times} Vec3f \<Rightarrow> 'f Vec3f \<Rightarrow> 'f Vec3f" where
  "cross a b = Vec3f (v3y a * v3z b - v3z a * v3y b)
                     (v3z a * v3x b - v3x a * v3z b)
                     (v3x a * v3y b - v3y a * v3x b)"

text \<open>
  The device intrinsics and library functions the kernel calls.  \<open>flit\<close> reads a decimal
  literal of the source (\<open>1e-5f\<close>) as a float, \<open>fequal\<close> is \<open>==\<close> on floats, \<open>int2float\<close>
  and \<open>float2int\<close> are the conversions of the language.
\<close>

record 'f intrinsics =
  exp2f :: "'f \<Rightarrow> 'f"
  fabsf :: "'f \<Rightarrow> 'f"
  copysignf :: "'f \<Rightarrow> 'f \<Rightarrow> 'f"
  fminf :: "'f \<Rightarrow> 'f \<Rightarrow> 'f"
  fmaxf :: "'f \<Rightarrow> 'f \<Rightarrow> 'f"
  fequal :: "'f \<Rightarrow> 'f \<Rightarrow> bool"
  float_as_int :: "'f \<Rightarrow> int"
  int_as_float :: "int \<Rightarrow> 'f"
  int2float :: "int \<Rightarrow> 'f"
  float2int :: "'f \<Rightarrow> int"
  flit :: "real \<Rightarrow> 'f"

text \<open>
  The textures bound by \<open>cudaRender\<close>.  A fetch is a total function of the address; what a
  fetch outside the bound buffer returns is part of the function.
\<close>

record 'f scene =
  bvhNodesTexture :: "int \<Rightarrow> 'f float4"
  triWoopTexture :: "int \<Rightarrow> 'f float4"
  triDebugTexture :: "int \<Rightarrow> 'f float4"
  triIndicesTexture :: "int \<Rightarrow> int"
  triUvTexture :: "int \<Rightarrow> 'f \<times> 'f"
  triNormalTexture :: "int \<Rightarrow> 'f float4"
  triMaterialTexture :: "int \<Rightarrow> int"
  colorTexture :: "'f \<Rightarrow> 'f \<Rightarrow> 'f float4"

text \<open>
  A run of a loop of the kernel returns a value, or reaches undefined behaviour of C++
  (\<open>UB\<close>: a stack slot outside \<open>traversalStack\<close>, signed overflow), or has not returned
  within the given number of iterations (\<open>OutOfFuel\<close>).
\<close>

datatype 'a result = Result 'a | UB | OutOfFuel

definition rbind :: "'a result \<Rightarrow> ('a \<Rightarrow> 'b result) \<Rightarrow> 'b result" where
  "rbind m f = (case m of Result a \<Rightarrow> f a | UB \<Rightarrow> UB | OutOfFuel \<Rightarrow> OutOfFuel)"

definition STACK_SIZE :: nat where
  "STACK_SIZE = 64"

definition EntrypointSentinel :: int where
  "EntrypointSentinel = 0x76543210"

definition INT_MAX :: int where
  "INT_MAX = 2147483647"

section \<open>Traversal: \<open>intersectBVHandTriangles\<close>\<close>

text \<open>
  The inline PTX \<open>vmin.s32.s32.s32.max d, a, b, c\<close> computes \<open>max (min a b) c\<close>, and so on
  for the other three.
\<close>

definition min_min :: "int \<Rightarrow> int \<Rightarrow> int \<Rightarrow> int" where
  "min_min a b c = min (min a b) c"

definition min_max :: "int \<Rightarrow> int \<Rightarrow> int \<Rightarrow> int" where
  "min_max a b c = max (min a b) c"

definition max_min :: "int \<Rightarrow> int \<Rightarrow> int \<Rightarrow> int" where
  "max_min a b c = min (max a b) c"

definition max_max :: "int \<Rightarrow> int \<Rightarrow> int \<Rightarrow> int" where
  "max_max a b c = max (max a b) c"

definition fmin_fmin :: "'f intrinsics \<Rightarrow> 'f \<Rightarrow> 'f \<Rightarrow> 'f \<Rightarrow> 'f" where
  "fmin_fmin I a b c =
     int_as_float I (min_min (float_as_int I a) (float_as_int I b) (float_as_int I c))"

definition fmin_fmax :: "'f intrinsics \<Rightarrow> 'f \<Rightarrow> 'f \<Rightarrow> 'f \<Rightarrow> 'f" where
  "fmin_fmax I a b c =
     int_as_float I (min_max (float_as_int I a) (float_as_int I b) (float_as_int I c))"

definition fmax_fmin :: "'f intrinsics \<Rightarrow> 'f \<Rightarrow> 'f \<Rightarrow> 'f \<Rightarrow> 'f" where
  "fmax_fmin I a b c =
     int_as_float I (max_min (float_as_int I a) (float_as_int I b) (float_as_int I c))"

definition fmax_fmax :: "'f intrinsics \<Rightarrow> 'f \<Rightarrow> 'f \<Rightarrow> 'f \<Rightarrow> 'f" where
  "fmax_fmax I a b c =
     int_as_float I (max_max (float_as_int I a) (float_as_int I b) (float_as_int I c))"

definition spanBeginKepler ::
  "'f intrinsics \<Rightarrow> 'f \<Rightarrow> 'f \<Rightarrow> 'f \<Rightarrow> 'f \<Rightarrow> 'f \<Rightarrow> 'f \<Rightarrow> 'f \<Rightarrow> 'f" where
  "spanBeginKepler I a0 a1 b0 b1 c0 c1 d =
     fmax_fmax I (fminf I a0 a1) (fminf I b0 b1) (fmin_fmax I c0 c1 d)"

definition spanEndKepler ::
  "'f intrinsics \<Rightarrow> 'f \<Rightarrow> 'f \<Rightarrow> 'f \<Rightarrow> 'f \<Rightarrow> 'f \<Rightarrow> 'f \<Rightarrow> 'f \<Rightarrow> 'f" where
  "spanEndKepler I a0 a1 b0 b1 c0 c1 d =
     fmin_fmin I (fmaxf I a0 a1) (fmaxf I b0 b1) (fmax_fmin I c0 c1 d)"

text \<open>The ray, as the initialisation block of the function leaves it in its locals.\<close>

record 'f raylocals =
  origx :: 'f
  origy :: 'f
  origz :: 'f
  dirx :: 'f
  diry :: 'f
  dirz :: 'f
  tmin :: 'f
  idirx :: 'f
  idiry :: 'f
  idirz :: 'f
  oodx :: 'f
  oody :: 'f
  oodz :: 'f

definition fetchRay ::
  "('f::{one,times,inverse,ord}) intrinsics \<Rightarrow> 'f float4 \<Rightarrow> 'f float4 \<Rightarrow> 'f raylocals" where
  "fetchRay I rayorig raydir =
     (let ooeps = exp2f I (flit I (- 80));
          ix = 1 / (if fabsf I (f4x raydir) > ooeps then f4x raydir
                    else copysignf I ooeps (f4x raydir));
          iy = 1 / (if fabsf I (f4y raydir) > ooeps then f4y raydir
                    else copysignf I ooeps (f4y raydir));
          iz = 1 / (if fabsf I (f4z raydir) > ooeps then f4z raydir
                    else copysignf I ooeps (f4z raydir))
      in \<lparr> origx = f4x rayorig, origy = f4y rayorig, origz = f4z rayorig,
           dirx = f4x raydir, diry = f4y raydir, dirz = f4z raydir,
           tmin = f4w rayorig,
           idirx = ix, idiry = iy, idirz = iz,
           oodx = f4x rayorig * ix, oody = f4y rayorig * iy, oodz = f4z rayorig * iz \<rparr>)"

text \<open>
  The live state of the traversal.  \<open>stack\<close> holds the entries of \<open>traversalStack\<close> from
  index 0 up to \<open>stackPtr\<close>, the top first: \<open>stackPtr += 4; *stackPtr = v\<close> is a push and
  \<open>v = *stackPtr; stackPtr -= 4\<close> a pop.  \<open>ballots\<close> counts the warp votes taken so far.
\<close>

record 'f trav =
  stack :: "int list"
  leafAddr :: int
  nodeAddr :: int
  hitIndex :: int
  hitT :: 'f
  trinormal :: "'f Vec3f"
  ballots :: nat

definition push :: "int \<Rightarrow> 'f trav \<Rightarrow> 'f trav result" where
  "push v s = (if length (stack s) < STACK_SIZE then Result (s\<lparr>stack := v # stack s\<rparr>) else UB)"

definition pop :: "'f trav \<Rightarrow> 'f trav result" where
  "pop s = (case stack s of [] \<Rightarrow> UB | v # rest \<Rightarrow> Result (s\<lparr>nodeAddr := v, stack := rest\<rparr>))"

text \<open>
  One iteration of the inner \<open>while\<close> (lines 240 to 348).  The second component of the
  result says whether the iteration ends in \<open>break\<close>.  The ballot of the warp is not zero
  when this lane still searches for a leaf, or when another lane of the warp does:
  \<open>lanes k\<close> says whether another lane does at the \<open>k\<close>-th vote.
\<close>

definition nodeStep ::
  "('f::{minus,times,ord}) intrinsics \<Rightarrow> 'f scene \<Rightarrow> (nat \<Rightarrow> bool) \<Rightarrow> 'f raylocals \<Rightarrow> 'f trav
     \<Rightarrow> ('f trav \<times> bool) result" where
  "nodeStep I S lanes r s =
     (let n0xy = bvhNodesTexture S (nodeAddr s);
          n1xy = bvhNodesTexture S (nodeAddr s + 1);
          nz = bvhNodesTexture S (nodeAddr s + 2);
          tmp = bvhNodesTexture S (nodeAddr s + 3);
          cnodes_x = float_as_int I (f4x tmp);
          cnodes_y = float_as_int I (f4y tmp);
          c0lox = f4x n0xy * idirx r - oodx r;
          c0hix = f4y n0xy * idirx r - oodx r;
          c0loy = f4z n0xy * idiry r - oody r;
          c0hiy = f4w n0xy * idiry r - oody r;
          c0loz = f4x nz * idirz r - oodz r;
          c0hiz = f4y nz * idirz r - oodz r;
          c1loz = f4z nz * idirz r - oodz r;
          c1hiz = f4w nz * idirz r - oodz r;
          c0min = spanBeginKepler I c0lox c0hix c0loy c0hiy c0loz c0hiz (tmin r);
          c0max = spanEndKepler I c0lox c0hix c0loy c0hiy c0loz c0hiz (hitT s);
          c1lox = f4x n1xy * idirx r - oodx r;
          c1hix = f4y n1xy * idirx r - oodx r;
          c1loy = f4z n1xy * idiry r - oody r;
          c1hiy = f4w n1xy * idiry r - oody r;
          c1min = spanBeginKepler I c1lox c1hix c1loy c1hiy c1loz c1hiz (tmin r);
          c1max = spanEndKepler I c1lox c1hix c1loy c1hiy c1loz c1hiz (hitT s);
          traverseChild0 = (c0min \<le> c0max);
          traverseChild1 = (c1min \<le> c1max)
      in rbind
           (if \<not> traverseChild0 \<and> \<not> traverseChild1 then pop s
            else
              (let s0 = s\<lparr>nodeAddr := (if traverseChild0 then cnodes_x else cnodes_y)\<rparr>
               in if traverseChild0 \<and> traverseChild1 then
                    (if c1min < c0min then push (nodeAddr s0) (s0\<lparr>nodeAddr := cnodes_y\<rparr>)
                     else push cnodes_y s0)
                  else Result s0))
           (\<lambda>s1. rbind
              (if nodeAddr s1 < 0 \<and> leafAddr s1 \<ge> 0 then pop (s1\<lparr>leafAddr := nodeAddr s1\<rparr>)
               else Result s1)
              (\<lambda>s2. let mask = (leafAddr s2 \<ge> 0 \<or> lanes (ballots s2))
                    in Result (s2\<lparr>ballots := Suc (ballots s2)\<rparr>, \<not> mask))))"

fun innerLoop ::
  "nat \<Rightarrow> ('f::{minus,times,ord}) intrinsics \<Rightarrow> 'f scene \<Rightarrow> (nat \<Rightarrow> bool) \<Rightarrow> 'f raylocals
     \<Rightarrow> 'f trav \<Rightarrow> 'f trav result" where
  "innerLoop 0 I S lanes r s = OutOfFuel"
| "innerLoop (Suc k) I S lanes r s =
     (if nodeAddr s \<ge> 0 \<and> nodeAddr s \<noteq> EntrypointSentinel then
        (case nodeStep I S lanes r s of
           Result (s1, brk) \<Rightarrow> if brk then Result s1 else innerLoop k I S lanes r s1
         | UB \<Rightarrow> UB
         | OutOfFuel \<Rightarrow> OutOfFuel)
      else Result s)"

text \<open>
  The tests of one triangle (lines 374 to 399): the hit distance \<open>t\<close> and the rows
  \<open>v11\<close>, \<open>v22\<close> when the triangle at \<open>triAddr\<close> passes all of them against the interval
  from \<open>tmin\<close> to \<open>hT\<close>, else \<open>None\<close>.
\<close>

definition woopTest ::
  "('f::{zero,one,plus,minus,times,inverse,ord}) scene \<Rightarrow> 'f raylocals \<Rightarrow> int \<Rightarrow> 'f
     \<Rightarrow> ('f \<times> 'f float4 \<times> 'f float4) option" where
  "woopTest S r triAddr hT =
     (let v00 = triWoopTexture S triAddr;
          Oz = f4w v00 - origx r * f4x v00 - origy r * f4y v00 - origz r * f4z v00;
          invDz = 1 / (dirx r * f4x v00 + diry r * f4y v00 + dirz r * f4z v00);
          t = Oz * invDz
      in if t > tmin r \<and> t < hT then
           (let v11 = triWoopTexture S (triAddr + 1);
                Ox = f4w v11 + origx r * f4x v11 + origy r * f4y v11 + origz r * f4z v11;
                Dx = dirx r * f4x v11 + diry r * f4y v11 + dirz r * f4z v11;
                u = Ox + t * Dx
            in if u \<ge> 0 \<and> u \<le> 1 then
                 (let v22 = triWoopTexture S (triAddr + 2);
                      Oy = f4w v22 + origx r * f4x v22 + origy r * f4y v22 + origz r * f4z v22;
                      Dy = dirx r * f4x v22 + diry r * f4y v22 + dirz r * f4z v22;
                      v = Oy + t * Dy
                  in if v \<ge> 0 \<and> u + v \<le> 1 then Some (t, v11, v22) else None)
               else None)
         else None)"

text \<open>
  The body of the \<open>for\<close> loop after the end marker test; the second component says
  whether it ends in \<open>break\<close>.
\<close>

definition triBody ::
  "('f::{zero,one,plus,minus,times,inverse,ord}) scene \<Rightarrow> 'f raylocals \<Rightarrow> bool \<Rightarrow> int
     \<Rightarrow> 'f trav \<Rightarrow> 'f trav \<times> bool" where
  "triBody S r anyHit triAddr s =
     (case woopTest S r triAddr (hitT s) of
        None \<Rightarrow> (s, False)
      | Some (t, v11, v22) \<Rightarrow>
          (let s1 = s\<lparr>hitT := t, hitIndex := triAddr\<rparr>
           in if anyHit then (s1\<lparr>nodeAddr := EntrypointSentinel\<rparr>, True)
              else (s1\<lparr>trinormal := cross (Vec3f (f4x v11) (f4y v11) (f4z v11))
                                           (Vec3f (f4x v22) (f4y v22) (f4z v22))\<rparr>, False)))"

text \<open>
  The \<open>for\<close> loop over the triangles of a leaf.  \<open>__float_as_int(v00.x) == 0x80000000\<close>
  compares as unsigned.  \<open>triAddr += 3\<close> beyond \<open>INT_MAX\<close> is undefined.
\<close>

fun triLoop ::
  "nat \<Rightarrow> ('f::{zero,one,plus,minus,times,inverse,ord}) intrinsics \<Rightarrow> 'f scene \<Rightarrow> 'f raylocals
     \<Rightarrow> bool \<Rightarrow> int \<Rightarrow> 'f trav \<Rightarrow> 'f trav result" where
  "triLoop 0 I S r anyHit triAddr s = OutOfFuel"
| "triLoop (Suc k) I S r anyHit triAddr s =
     (if float_as_int I (f4x (triWoopTexture S triAddr)) mod 2 ^ 32 = 0x80000000 then Result s
      else
        (case triBody S r anyHit triAddr s of
           (s1, brk) \<Rightarrow>
             if brk then Result s1
             else if triAddr + 3 \<le> INT_MAX then triLoop k I S r anyHit (triAddr + 3) s1
             else UB))"

text \<open>What follows the \<open>for\<close> loop in the leaf loop (lines 426 to 431).\<close>

definition nextLeaf :: "'f trav \<Rightarrow> 'f trav result" where
  "nextLeaf s =
     (let s1 = s\<lparr>leafAddr := nodeAddr s\<rparr>
      in if nodeAddr s1 < 0 then pop s1 else Result s1)"

fun leafLoop ::
  "nat \<Rightarrow> ('f::{zero,one,plus,minus,times,inverse,ord}) intrinsics \<Rightarrow> 'f scene \<Rightarrow> 'f raylocals
     \<Rightarrow> bool \<Rightarrow> 'f trav \<Rightarrow> 'f trav result" where
  "leafLoop 0 I S r anyHit s = OutOfFuel"
| "leafLoop (Suc k) I S r anyHit s =
     (if leafAddr s < 0 then
        (case triLoop k I S r anyHit (- leafAddr s - 1) s of
           Result s1 \<Rightarrow>
             (case nextLeaf s1 of
                Result s2 \<Rightarrow> leafLoop k I S r anyHit s2
              | UB \<Rightarrow> UB
              | OutOfFuel \<Rightarrow> OutOfFuel)
         | UB \<Rightarrow> UB
         | OutOfFuel \<Rightarrow> OutOfFuel)
      else Result s)"

fun traversal ::
  "nat \<Rightarrow> ('f::{zero,one,plus,minus,times,inverse,ord}) intrinsics \<Rightarrow> 'f scene
     \<Rightarrow> (nat \<Rightarrow> bool) \<Rightarrow> 'f raylocals \<Rightarrow> bool \<Rightarrow> 'f trav \<Rightarrow> 'f trav result" where
  "traversal 0 I S lanes r anyHit s = OutOfFuel"
| "traversal (Suc k) I S lanes r anyHit s =
     (if nodeAddr s \<noteq> EntrypointSentinel then
        (case innerLoop k I S lanes r s of
           Result s1 \<Rightarrow>
             (case leafLoop k I S r anyHit s1 of
                Result s2 \<Rightarrow> traversal k I S lanes r anyHit s2
              | UB \<Rightarrow> UB
              | OutOfFuel \<Rightarrow> OutOfFuel)
         | UB \<Rightarrow> UB
         | OutOfFuel \<Rightarrow> OutOfFuel)
      else Result s)"

text \<open>
  The function: the outputs \<open>hitTriIdx\<close>, \<open>hitdistance\<close> and \<open>trinormal\<close>; the last is passed
  by reference and keeps the caller's value \<open>trinormal0\<close> when it is not written.  The
  votes of the warp are numbered through the life of the thread: the call starts at vote
  \<open>ballots0\<close> and returns the number it has reached.
\<close>

definition startState :: "'f float4 \<Rightarrow> 'f Vec3f \<Rightarrow> nat \<Rightarrow> 'f trav" where
  "startState raydir trinormal0 ballots0 =
     \<lparr> stack = [EntrypointSentinel], leafAddr = 0, nodeAddr = 0, hitIndex = - 1,
       hitT = f4w raydir, trinormal = trinormal0, ballots = ballots0 \<rparr>"

definition intersectBVHandTriangles ::
  "nat \<Rightarrow> ('f::{zero,one,plus,minus,times,inverse,ord}) intrinsics \<Rightarrow> 'f scene
     \<Rightarrow> (nat \<Rightarrow> bool) \<Rightarrow> nat \<Rightarrow> 'f float4 \<Rightarrow> 'f float4 \<Rightarrow> 'f Vec3f \<Rightarrow> bool
     \<Rightarrow> (int \<times> 'f \<times> 'f Vec3f \<times> nat) result" where
  "intersectBVHandTriangles fuel I S lanes ballots0 rayorig raydir trinormal0 anyHit =
     rbind (traversal fuel I S lanes (fetchRay I rayorig raydir) anyHit
              (startState raydir trinormal0 ballots0))
       (\<lambda>s. Result (hitIndex s, hitT s, trinormal s, ballots s))"

section \<open>Path integration: \<open>renderKernel\<close>\<close>

definition RAY_MIN :: "'f intrinsics \<Rightarrow> 'f" where
  "RAY_MIN I = flit I (1 / 100000)"

definition RAY_MAX :: "'f intrinsics \<Rightarrow> 'f" where
  "RAY_MAX I = flit I (10 ^ 20)"

definition LIGHT_BOUNCE :: int where
  "LIGHT_BOUNCE = 8"

datatype Refl_t =
  MAT_EMIT | MAT_DIFF | MAT_GLASS | MAT_REFL | MAT_DIFF_REFL | MAT_FRESNEL | MAT_NULL
  | MAT_MEDIUM | MAT_SUBSURFACE

definition GEO_TRIANGLE :: int where "GEO_TRIANGLE = 0"
definition GEO_SPHERE :: int where "GEO_SPHERE = 1"
definition GEO_GROUND :: int where "GEO_GROUND = 2"

definition MEDIUM_NO :: int where "MEDIUM_NO = - 1"

definition airMedium :: int where "airMedium = MEDIUM_NO"
definition objMedium :: int where "objMedium = MEDIUM_NO"

text \<open>The struct \<open>Medium\<close>; its member \<open>g\<close> is \<open>hg\<close> here.\<close>

datatype 'f Medium = Medium (sigmaS: "'f Vec3f") (sigmaA: "'f Vec3f") (hg: 'f)

definition getSigmaT :: "'f::plus Medium \<Rightarrow> 'f Vec3f" where
  "getSigmaT m = vadd (sigmaA m) (sigmaS m)"

definition getRho :: "'f::{plus,inverse} Medium \<Rightarrow> 'f Vec3f" where
  "getRho m = vdiv (sigmaS m) (getSigmaT m)"

definition scaleMedium :: "'f::times Medium \<Rightarrow> 'f \<Rightarrow> 'f Medium" where
  "scaleMedium m scaleFactor =
     Medium (vscale (sigmaS m) scaleFactor) (vscale (sigmaA m) scaleFactor) (hg m)"

text \<open>
  The functions of \<open>reflection.cuh\<close>, \<open>bssrdf.cuh\<close>, \<open>mymath.h\<close> and of the cuRAND library
  that the kernel calls; their code is not part of the sources at hand, so they are
  parameters.  Each takes the arguments the kernel passes by value, in the order of the call,
  and returns the values of the arguments it is passed to write (\<open>nextdir\<close>, \<open>beta\<close>,
  \<open>refl\<close> and so on); \<open>calculateBSSRDFSoE\<close> and \<open>HomogeneousMedium\<close> also take the old value
  of \<open>beta\<close> and of \<open>mask\<close>.  The flag \<open>refl\<close> of the kernel is \<open>reflB\<close> below.
  \<open>curand_uniform\<close> maps the state of the generator to the number drawn and the next state.
\<close>

record ('f, 'g) device =
  curand_uniform :: "'g \<Rightarrow> 'f \<times> 'g"
  invPi :: 'f
  normalize :: "'f Vec3f \<Rightarrow> 'f Vec3f"
  vlength :: "'f Vec3f \<Rightarrow> 'f"
  Barycentric :: "'f Vec3f \<Rightarrow> 'f Vec3f \<Rightarrow> 'f Vec3f \<Rightarrow> 'f Vec3f \<Rightarrow> 'f \<times> 'f \<times> 'f"
  lambertianReflection :: "'f \<Rightarrow> 'f \<Rightarrow> 'f Vec3f \<Rightarrow> 'f Vec3f"
  macrofacetReflection ::
    "'f \<Rightarrow> 'f \<Rightarrow> 'f Vec3f \<Rightarrow> 'f Vec3f \<Rightarrow> 'f Vec3f \<Rightarrow> 'f Vec3f \<Rightarrow> 'f \<Rightarrow> 'f \<Rightarrow> 'f Vec3f \<times> 'f Vec3f"
  fresnelBlend ::
    "'f \<Rightarrow> 'f \<Rightarrow> 'f \<Rightarrow> 'f Vec3f \<Rightarrow> 'f Vec3f \<Rightarrow> 'f Vec3f \<Rightarrow> 'f Vec3f \<Rightarrow> 'f \<Rightarrow> 'f Vec3f \<times> 'f Vec3f"
  specularGlass :: "'f \<Rightarrow> bool \<Rightarrow> 'f Vec3f \<Rightarrow> 'f Vec3f \<Rightarrow> 'f \<Rightarrow> 'f Vec3f \<times> bool"
  macrofacetGlass ::
    "'f \<Rightarrow> 'f \<Rightarrow> 'f \<Rightarrow> bool \<Rightarrow> 'f Vec3f \<Rightarrow> 'f Vec3f \<Rightarrow> 'f \<Rightarrow> 'f \<Rightarrow> 'f Vec3f \<times> 'f Vec3f \<times> bool"
  microfacetSampling ::
    "'f \<Rightarrow> 'f \<Rightarrow> bool \<Rightarrow> 'f Vec3f \<Rightarrow> 'f Vec3f \<Rightarrow> 'f \<Rightarrow> 'f
       \<Rightarrow> bool \<times> 'f Vec3f \<times> 'f Vec3f \<times> 'f Vec3f"
  localizeSample :: "'f Vec3f \<Rightarrow> 'f Vec3f \<times> 'f Vec3f"
  sampleBSSRDFprobeRaySoE ::
    "'f \<Rightarrow> 'f \<Rightarrow> 'f \<Rightarrow> 'f \<Rightarrow> 'f \<Rightarrow> 'f Vec3f \<Rightarrow> 'f Vec3f \<Rightarrow> 'f Vec3f \<Rightarrow> 'f Vec3f \<Rightarrow> 'f Vec3f
       \<Rightarrow> 'f Vec3f \<Rightarrow> 'f Vec3f \<times> 'f Vec3f \<times> 'f \<times> 'f"
  calculateBSSRDFSoE ::
    "'f Vec3f \<Rightarrow> 'f Vec3f \<Rightarrow> 'f Vec3f \<Rightarrow> 'f Vec3f \<Rightarrow> 'f Vec3f \<Rightarrow> 'f Vec3f \<Rightarrow> 'f Vec3f
       \<Rightarrow> 'f Vec3f \<Rightarrow> 'f \<Rightarrow> 'f Vec3f"
  FrD :: "'f \<Rightarrow> 'f \<Rightarrow> 'f \<Rightarrow> 'f"
  FM1 :: "'f \<Rightarrow> 'f"
  HomogeneousMedium ::
    "'f \<Rightarrow> 'f \<Rightarrow> 'f \<Rightarrow> 'f \<Rightarrow> 'f Vec3f \<Rightarrow> 'f Vec3f \<Rightarrow> 'f Vec3f \<Rightarrow> 'f \<Rightarrow> 'f \<Rightarrow> 'f Vec3f \<Rightarrow> 'f Vec3f
       \<Rightarrow> 'f Vec3f \<times> 'f Vec3f \<times> 'f Vec3f \<times> bool"

text \<open>The material variables of the kernel, set afresh at every bounce.\<close>

record 'f material =
  refltype :: Refl_t
  objcol :: "'f Vec3f"
  emit :: "'f Vec3f"
  alphax :: 'f
  alphay :: 'f
  kd :: 'f
  ks :: 'f
  etaT :: 'f
  useTexture :: bool
  useNormal :: bool
  F0 :: "'f Vec3f"
  tangent :: "'f Vec3f"
  scaleFactor :: 'f

text \<open>
  The other variables of \<open>renderKernel\<close>.  The normal \<open>n\<close> is \<open>surfN\<close>, the kernel's own
  \<open>trinormal\<close> is \<open>trinormalK\<close>, and \<open>votes\<close> is the number of warp votes the thread has taken.
\<close>

record ('f, 'g) frame =
  rayorig :: "'f Vec3f"
  raydir :: "'f Vec3f"
  hitTriAddr :: int
  hitDistance :: 'f
  sceneT :: 'f
  geometryType :: int
  hitpoint :: "'f Vec3f"
  surfN :: "'f Vec3f"
  nl :: "'f Vec3f"
  nextdir :: "'f Vec3f"
  trinormalK :: "'f Vec3f"
  mask :: "'f Vec3f"
  accucolor :: "'f Vec3f"
  beta :: "'f Vec3f"
  medium :: int
  bssrdfMatId :: int
  rdState :: 'g
  votes :: nat
  mat :: "'f material"

definition rd :: "('f, 'g) device \<Rightarrow> ('f, 'g) frame \<Rightarrow> 'f \<times> ('f, 'g) frame" where
  "rd D k = (case curand_uniform D (rdState k) of (v, g) \<Rightarrow> (v, k\<lparr>rdState := g\<rparr>))"

text \<open>
  \<open>envLight\<close> with \<open>USE_ENVMAP\<close> false.
\<close>

definition envLight :: "'f::zero Vec3f \<Rightarrow> 'f Vec3f" where
  "envLight dir = Vec3f 0 0 0"

definition textureFetching ::
  "('f::{plus,times}, 'g) device \<Rightarrow> 'f scene \<Rightarrow> int \<Rightarrow> 'f Vec3f \<Rightarrow> 'f Vec3f \<times> 'f Vec3f" where
  "textureFetching D S triAddr point =
     (let po0 = triDebugTexture S triAddr; p0 = Vec3f (f4x po0) (f4y po0) (f4z po0);
          po1 = triDebugTexture S (triAddr + 1); p1 = Vec3f (f4x po1) (f4y po1) (f4z po1);
          po2 = triDebugTexture S (triAddr + 2); p2 = Vec3f (f4x po2) (f4y po2) (f4z po2);
          uv0 = triUvTexture S triAddr;
          uv1 = triUvTexture S (triAddr + 1);
          uv2 = triUvTexture S (triAddr + 2);
          normal0 = triNormalTexture S triAddr;
          n0 = Vec3f (f4x normal0) (f4y normal0) (f4z normal0);
          normal1 = triNormalTexture S (triAddr + 1);
          n1 = Vec3f (f4x normal1) (f4y normal1) (f4z normal1);
          normal2 = triNormalTexture S (triAddr + 2);
          n2 = Vec3f (f4x normal2) (f4y normal2) (f4z normal2)
      in case Barycentric D point p0 p1 p2 of
           (u, v, w) \<Rightarrow>
             (let hitUv_x = fst uv0 * u + fst uv1 * v + fst uv2 * w;
                  hitUv_y = snd uv0 * u + snd uv1 * v + snd uv2 * w;
                  smoothNormal = vadd (vadd (vscale n0 u) (vscale n1 v)) (vscale n2 w);
                  colorTex = colorTexture S hitUv_x hitUv_y
              in (smoothNormal, Vec3f (f4x colorTex) (f4y colorTex) (f4z colorTex))))"

text \<open>The initialisation block at the head of the loop body (lines 553 to 574).\<close>

definition defaultMaterial :: "('f::{zero,one,uminus}) intrinsics \<Rightarrow> 'f material" where
  "defaultMaterial I =
     \<lparr> refltype = MAT_DIFF, objcol = Vec3f 1 1 1, emit = Vec3f 0 0 0, alphax = 0, alphay = 0,
       kd = 1, ks = 1, etaT = flit I (14 / 10), useTexture = False, useNormal = True,
       F0 = Vec3f (flit I (56 / 100)) (flit I (57 / 100)) (flit I (58 / 100)),
       tangent = Vec3f 0 1 (- 1), scaleFactor = 1 \<rparr>"

definition initBounce ::
  "('f::{zero,one,uminus}) intrinsics \<Rightarrow> ('f, 'g) frame \<Rightarrow> ('f, 'g) frame" where
  "initBounce I k =
     k\<lparr>geometryType := 0, hitTriAddr := - 1, hitDistance := flit I (10 ^ 20),
       sceneT := flit I (10 ^ 20), mat := defaultMaterial I\<rparr>"

text \<open>The material description of the triangle branch (lines 649 to 666).\<close>

definition skinMedium :: "'f intrinsics \<Rightarrow> 'f \<Rightarrow> 'f Medium" where
  "skinMedium I g =
     Medium (Vec3f (flit I (74 / 100)) (flit I (88 / 100)) (flit I (101 / 100)))
            (Vec3f (flit I (32 / 1000)) (flit I (17 / 100)) (flit I (48 / 100))) g"

definition describeTriangle ::
  "('f::{zero,one,plus,times,inverse}) intrinsics \<Rightarrow> ('f, 'g) device \<Rightarrow> 'f scene
     \<Rightarrow> ('f, 'g) frame \<Rightarrow> ('f, 'g) frame" where
  "describeTriangle I D S k =
     (let originalIdx = triIndicesTexture S (hitTriAddr k);
          materialId = triMaterialTexture S originalIdx
      in case textureFetching D S (hitTriAddr k) (hitpoint k) of
           (smoothNormal, colorTex) \<Rightarrow>
             (let m1 = (mat k)\<lparr>refltype := MAT_SUBSURFACE, alphax := flit I (1 / 2),
                                F0 := Vec3f (flit I (4 / 100)) (flit I (4 / 100)) (flit I (4 / 100)),
                                scaleFactor := flit I 100,
                                objcol := getRho (skinMedium I 0)\<rparr>;
                  m2 = (if useTexture m1 then m1\<lparr>objcol := colorTex\<rparr> else m1);
                  k1 = k\<lparr>bssrdfMatId := materialId, mat := m2\<rparr>
              in if useNormal m2 then k1\<lparr>surfN := smoothNormal\<rparr> else k1))"

text \<open>The direct light of the diffuse and the glass branch.\<close>

definition vdivs :: "'f::inverse Vec3f \<Rightarrow> 'f \<Rightarrow> 'f Vec3f" where
  "vdivs a d = Vec3f (v3x a / d) (v3y a / d) (v3z a / d)"

definition nearLight :: "('f::{zero,plus,times,ord}) intrinsics \<Rightarrow> 'f \<Rightarrow> 'f Vec3f \<Rightarrow> bool" where
  "nearLight I radius2 p \<longleftrightarrow> v3x p * v3x p + v3z p * v3z p < radius2 \<and> v3y p > 0"

definition misWeight :: "('f::{one,plus,times,inverse}) \<Rightarrow> 'f Vec3f \<Rightarrow> 'f Vec3f" where
  "misWeight scatteringPdf c =
     (let Li = Vec3f 1 1 1; lightPdf = 1
      in vdivs (vscale (vmul c Li) (scatteringPdf + lightPdf))
               (scatteringPdf * scatteringPdf + lightPdf * lightPdf))"

definition directLight ::
  "('f::{zero,one,plus,times,inverse,ord,abs}) intrinsics \<Rightarrow> ('f, 'g) device \<Rightarrow> ('f, 'g) frame
     \<Rightarrow> ('f, 'g) frame" where
  "directLight I D k =
     (if nearLight I (flit I (1 / 10)) (hitpoint k) then
        (let lightDir = Vec3f 0 1 0;
             f = vscale (objcol (mat k)) (invPi D);
             scatteringPdf = abs (dot lightDir (nl k)) * invPi D
         in k\<lparr>accucolor := vadd (accucolor k) (misWeight scatteringPdf f)\<rparr>)
      else k)"

definition nudge ::
  "('f::{plus,times}) intrinsics \<Rightarrow> ('f, 'g) frame \<Rightarrow> ('f, 'g) frame" where
  "nudge I k = k\<lparr>hitpoint := vadd (hitpoint k) (vscale (nl k) (RAY_MIN I))\<rparr>"

definition toggleMedium :: "bool \<Rightarrow> ('f, 'g) frame \<Rightarrow> ('f, 'g) frame" where
  "toggleMedium stay k =
     (if airMedium \<noteq> objMedium then
        k\<lparr>medium := (if medium k = airMedium then (if stay then airMedium else objMedium)
                      else (if stay then objMedium else airMedium))\<rparr>
      else k)"

definition shadeDiff ::
  "('f::{zero,one,plus,times,inverse,ord,abs}) intrinsics \<Rightarrow> ('f, 'g) device \<Rightarrow> ('f, 'g) frame
     \<Rightarrow> ('f, 'g) frame" where
  "shadeDiff I D k =
     (let k1 = directLight I D k
      in case rd D k1 of (r1, k2) \<Rightarrow> case rd D k2 of (r2, k3) \<Rightarrow>
        (let k4 = k3\<lparr>nextdir := lambertianReflection D r1 r2 (nl k3)\<rparr>;
             k5 = nudge I k4
         in k5\<lparr>mask := vmul (mask k5) (scalev (kd (mat k5)) (objcol (mat k5)))\<rparr>))"

definition shadeRefl ::
  "('f::{zero,plus,minus,times}) intrinsics \<Rightarrow> ('f, 'g) device \<Rightarrow> ('f, 'g) frame
     \<Rightarrow> ('f, 'g) frame" where
  "shadeRefl I D k =
     nudge I
       (if fequal I (alphax (mat k)) 0 then
          (let k1 = k\<lparr>nextdir := vsub (raydir k)
                       (vscale (vscale (surfN k) (dot (surfN k) (raydir k))) (flit I 2))\<rparr>;
               k2 = k1\<lparr>nextdir := normalize D (nextdir k1)\<rparr>;
               k3 = nudge I k2
           in k3\<lparr>mask := vmul (mask k3) (scalev (ks (mat k3)) (objcol (mat k3)))\<rparr>)
        else
          (case rd D k of (r1, k1) \<Rightarrow> case rd D k1 of (r2, k2) \<Rightarrow>
             (case macrofacetReflection D r1 r2 (raydir k2) (nl k2) (tangent (mat k2))
                     (F0 (mat k2)) (alphax (mat k2)) (alphay (mat k2)) of
                (nd, b) \<Rightarrow>
                  (let k3 = k2\<lparr>nextdir := nd, beta := b\<rparr>
                   in k3\<lparr>mask := vmul (mask k3)
                         (vmul (scalev (ks (mat k3)) (beta k3)) (objcol (mat k3)))\<rparr>))))"

definition shadeDiffRefl ::
  "('f::{plus,times,inverse,ord}) intrinsics \<Rightarrow> ('f, 'g) device \<Rightarrow> ('f, 'g) frame
     \<Rightarrow> ('f, 'g) frame" where
  "shadeDiffRefl I D k =
     (case rd D k of (r0, k0) \<Rightarrow>
        if r0 < ks (mat k0) / (ks (mat k0) + kd (mat k0)) then
          (case rd D k0 of (r1, k1) \<Rightarrow> case rd D k1 of (r2, k2) \<Rightarrow>
             (case macrofacetReflection D r1 r2 (raydir k2) (nl k2) (tangent (mat k2))
                     (F0 (mat k2)) (alphax (mat k2)) (alphay (mat k2)) of
                (nd, b) \<Rightarrow>
                  (let k3 = k2\<lparr>nextdir := nd, beta := b\<rparr>
                   in k3\<lparr>mask := vmul (mask k3) (beta k3)\<rparr>)))
        else
          (case rd D k0 of (r1, k1) \<Rightarrow> case rd D k1 of (r2, k2) \<Rightarrow>
             (let k3 = k2\<lparr>nextdir := lambertianReflection D r1 r2 (nl k2)\<rparr>
              in k3\<lparr>mask := vmul (mask k3) (objcol (mat k3))\<rparr>)))"

definition shadeFresnel ::
  "('f::times) intrinsics \<Rightarrow> ('f, 'g) device \<Rightarrow> ('f, 'g) frame \<Rightarrow> ('f, 'g) frame" where
  "shadeFresnel I D k =
     (case rd D k of (r1, k1) \<Rightarrow> case rd D k1 of (r2, k2) \<Rightarrow> case rd D k2 of (r3, k3) \<Rightarrow>
        (case fresnelBlend D r1 r2 r3 (raydir k3) (nl k3)
                (scalev (kd (mat k3)) (objcol (mat k3))) (F0 (mat k3)) (alphax (mat k3)) of
           (nd, b) \<Rightarrow>
             (let k4 = k3\<lparr>nextdir := nd, beta := b\<rparr>
              in k4\<lparr>mask := vmul (mask k4) (beta k4)\<rparr>)))"

definition nudgeSide ::
  "('f::{plus,times}) intrinsics \<Rightarrow> bool \<Rightarrow> ('f, 'g) frame \<Rightarrow> ('f, 'g) frame" where
  "nudgeSide I reflB k =
     k\<lparr>hitpoint := vadd (hitpoint k)
          (vscale (vscale (nl k) (RAY_MIN I)) (int2float I (if reflB then 1 else - 1)))\<rparr>"

text \<open>
  The microfacet glass: what \<open>macrofacetGlass\<close> returns for the frame (\<open>beta\<close>, \<open>nextdir\<close>,
  \<open>refl\<close>) after the direct light and the three random numbers, and the frame then; and the
  updates that follow the call (lines 753 to 756).
\<close>

definition glassSample ::
  "('f::{zero,one,plus,times,inverse,ord,abs}) intrinsics \<Rightarrow> ('f, 'g) device \<Rightarrow> bool
     \<Rightarrow> ('f, 'g) frame \<Rightarrow> ('f Vec3f \<times> 'f Vec3f \<times> bool) \<times> ('f, 'g) frame" where
  "glassSample I D into k =
     (let k0 = directLight I D k
      in case rd D k0 of (r1, k1) \<Rightarrow> case rd D k1 of (r2, k2) \<Rightarrow> case rd D k2 of (r3, k3) \<Rightarrow>
        (macrofacetGlass D r1 r2 r3 into (raydir k3) (nl k3) (etaT (mat k3)) (alphax (mat k3)),
         k3))"

definition glassUpdate ::
  "('f::{plus,times}) intrinsics \<Rightarrow> bool \<Rightarrow> 'f Vec3f \<Rightarrow> 'f Vec3f \<Rightarrow> bool \<Rightarrow> ('f, 'g) frame
     \<Rightarrow> ('f, 'g) frame" where
  "glassUpdate I into b nd reflB k3 =
     (let k4 = nudgeSide I reflB (k3\<lparr>beta := b, nextdir := nd\<rparr>);
          k5 = k4\<lparr>mask := vmul (mask k4) (vmul (beta k4) (objcol (mat k4)))\<rparr>;
          k6 = (if \<not> reflB \<and> \<not> into
                then k5\<lparr>mask := vscale (mask k5) (etaT (mat k5) * etaT (mat k5))\<rparr>
                else k5)
      in toggleMedium reflB k6)"

definition shadeGlass ::
  "('f::{zero,one,plus,times,inverse,ord,abs}) intrinsics \<Rightarrow> ('f, 'g) device \<Rightarrow> bool
     \<Rightarrow> ('f, 'g) frame \<Rightarrow> ('f, 'g) frame" where
  "shadeGlass I D into k =
     (if fequal I (alphax (mat k)) 0 then
        (case rd D k of (r1, k1) \<Rightarrow>
           (case specularGlass D r1 into (raydir k1) (nl k1) (etaT (mat k1)) of
              (nd, reflB) \<Rightarrow> toggleMedium reflB (nudgeSide I reflB (k1\<lparr>nextdir := nd\<rparr>))))
      else
        (case glassSample I D into k of
           ((b, nd, reflB), k3) \<Rightarrow> glassUpdate I into b nd reflB k3))"

definition shadeMedium ::
  "('f::{minus,times}) intrinsics \<Rightarrow> bool \<Rightarrow> ('f, 'g) frame \<Rightarrow> ('f, 'g) frame" where
  "shadeMedium I into k =
     (let k1 = k\<lparr>nextdir := raydir k\<rparr>;
          k2 = k1\<lparr>hitpoint := vsub (hitpoint k1) (vscale (nl k1) (RAY_MIN I))\<rparr>
      in toggleMedium (\<not> into) k2)"

definition shadeNull ::
  "('f::{minus,times}) intrinsics \<Rightarrow> ('f, 'g) frame \<Rightarrow> ('f, 'g) frame" where
  "shadeNull I k =
     (let k1 = k\<lparr>nextdir := raydir k\<rparr>
      in k1\<lparr>hitpoint := vsub (hitpoint k1) (vscale (nl k1) (RAY_MIN I))\<rparr>)"

subsection \<open>The subsurface branch\<close>

definition maxSurfaceHit :: nat where
  "maxSurfaceHit = 1"

definition maxRatio :: "'f intrinsics \<Rightarrow> 'f" where
  "maxRatio I = flit I (14 / 10)"

definition minNormalDot :: "'f intrinsics \<Rightarrow> 'f" where
  "minNormalDot I = flit I (1 / 2)"

text \<open>
  The locals of the branch that the probing writes.  The three arrays of capacity
  \<open>maxSurfaceHit\<close> are functions of the index; an access at an index outside the capacity is
  undefined behaviour.
\<close>

record 'f probe =
  hitCount :: int
  sampledRadius :: 'f
  probeRayOrig :: "'f Vec3f"
  probeRayDir :: "'f Vec3f"
  probeRayVec :: "'f Vec3f"
  probeNormal :: "'f Vec3f"
  probeHitPoint :: "nat \<Rightarrow> 'f Vec3f"
  probeHitPointNormal :: "nat \<Rightarrow> 'f Vec3f"
  probeHitPointColor :: "nat \<Rightarrow> 'f Vec3f"
  probeRayLength :: 'f

text \<open>The locals of the branch that the probing only reads.\<close>

record 'f diffusion =
  sigmaT :: "'f Vec3f"
  rho :: "'f Vec3f"
  vx :: "'f Vec3f"
  vy :: "'f Vec3f"

text \<open>What one step of the search computes of the hit it has found (lines 823 to 835).\<close>

record 'f exitPoint =
  probeHitPointAny :: "'f Vec3f"
  realRadius :: 'f
  surfaceMat :: int
  smoothNormal :: "'f Vec3f"
  probeObjColor :: "'f Vec3f"
  normalDot :: 'f

definition probeHit ::
  "('f::{plus,minus,times,abs}, 'g) device \<Rightarrow> 'f scene \<Rightarrow> ('f, 'g) frame \<Rightarrow> 'f probe
     \<Rightarrow> 'f exitPoint" where
  "probeHit D S k pr =
     (let p = vadd (probeRayOrig pr) (vscale (probeRayDir pr) (hitDistance k))
      in case textureFetching D S (hitTriAddr k) p of
           (sn, col) \<Rightarrow>
             \<lparr> probeHitPointAny = p,
               realRadius = vlength D (vsub p (hitpoint k)),
               surfaceMat = triMaterialTexture S (triIndicesTexture S (hitTriAddr k)),
               smoothNormal = normalize D sn,
               probeObjColor = col,
               normalDot = abs (dot (normalize D sn) (probeRayDir pr)) \<rparr>)"

definition accepted ::
  "('f::{inverse,ord}) intrinsics \<Rightarrow> ('f, 'g) frame \<Rightarrow> 'f probe \<Rightarrow> 'f exitPoint \<Rightarrow> bool" where
  "accepted I k pr e \<longleftrightarrow>
     surfaceMat e = bssrdfMatId k
     \<and> realRadius e / sampledRadius pr < maxRatio I
     \<and> normalDot e > minNormalDot I"

definition recordExit ::
  "('f::one, 'g) frame \<Rightarrow> 'f probe \<Rightarrow> 'f exitPoint \<Rightarrow> 'f probe result" where
  "recordExit k pr e =
     (if 0 \<le> hitCount pr \<and> hitCount pr < int maxSurfaceHit then
        Result (pr\<lparr>probeHitPoint := (probeHitPoint pr)(nat (hitCount pr) := probeHitPointAny e),
                   probeHitPointNormal :=
                     (probeHitPointNormal pr)(nat (hitCount pr) := smoothNormal e),
                   probeHitPointColor :=
                     (probeHitPointColor pr)(nat (hitCount pr) :=
                        (if useTexture (mat k) then probeObjColor e else Vec3f 1 1 1)),
                   hitCount := hitCount pr + 1\<rparr>)
      else UB)"

text \<open>
  The body of the search loop after the traversal (lines 817 to 855); the flag says whether
  it ends in \<open>break\<close>.
\<close>

definition probeRecord ::
  "('f::{one,plus,minus,times,inverse,ord,abs}) intrinsics \<Rightarrow> ('f, 'g) device \<Rightarrow> 'f scene
     \<Rightarrow> ('f, 'g) frame \<Rightarrow> 'f probe \<Rightarrow> ('f probe \<times> bool) result" where
  "probeRecord I D S k pr =
     (if probeRayLength pr < hitDistance k then Result (pr, True)
      else
        (let e = probeHit D S k pr;
             pr1 = pr\<lparr>probeRayVec := vsub (probeHitPointAny e) (hitpoint k)\<rparr>
         in rbind (if accepted I k pr1 e then recordExit k pr1 e else Result pr1)
              (\<lambda>pr2. Result
                 (pr2\<lparr>probeRayLength := probeRayLength pr2 - hitDistance k,
                      probeRayOrig := vadd (probeHitPointAny e)
                                           (scalev (RAY_MIN I) (probeRayDir pr2))\<rparr>, False))))"

definition probeStep ::
  "nat \<Rightarrow> ('f::{zero,one,plus,minus,times,inverse,ord,abs}) intrinsics \<Rightarrow> ('f, 'g) device
     \<Rightarrow> 'f scene \<Rightarrow> (nat \<Rightarrow> bool) \<Rightarrow> ('f, 'g) frame \<Rightarrow> 'f probe
     \<Rightarrow> ((('f, 'g) frame \<times> 'f probe) \<times> bool) result" where
  "probeStep fuel I D S lanes k pr =
     rbind (intersectBVHandTriangles fuel I S lanes (votes k)
              (make_float4 (v3x (probeRayOrig pr)) (v3y (probeRayOrig pr))
                 (v3z (probeRayOrig pr)) (RAY_MIN I))
              (make_float4 (v3x (probeRayDir pr)) (v3y (probeRayDir pr))
                 (v3z (probeRayDir pr)) (RAY_MAX I))
              (probeNormal pr) False)
       (\<lambda>(idx, d, nrm, b).
          (let k1 = k\<lparr>hitTriAddr := idx, hitDistance := d, votes := b\<rparr>
           in rbind (probeRecord I D S k1 (pr\<lparr>probeNormal := nrm\<rparr>))
                (\<lambda>(pr1, brk). Result ((k1, pr1), brk))))"

text \<open>The search along one probe ray: \<open>for (i = 0; i < maxSurfaceHit; ++i)\<close>.\<close>

function searchLoop ::
  "nat \<Rightarrow> ('f::{zero,one,plus,minus,times,inverse,ord,abs}) intrinsics \<Rightarrow> ('f, 'g) device
     \<Rightarrow> 'f scene \<Rightarrow> (nat \<Rightarrow> bool) \<Rightarrow> nat \<Rightarrow> ('f, 'g) frame \<Rightarrow> 'f probe
     \<Rightarrow> (('f, 'g) frame \<times> 'f probe) result" where
  "searchLoop fuel I D S lanes i k pr =
     (if i < maxSurfaceHit then
        (case probeStep fuel I D S lanes k pr of
           Result ((k1, pr1), brk) \<Rightarrow>
             if brk then Result (k1, pr1) else searchLoop fuel I D S lanes (i + 1) k1 pr1
         | UB \<Rightarrow> UB
         | OutOfFuel \<Rightarrow> OutOfFuel)
      else Result (k, pr))"
  by pat_completeness auto
termination
  by (relation "measure (\<lambda>(fuel, I, D, S, lanes, i, k, pr). maxSurfaceHit - i)") auto

text \<open>One attempt: the sampling of a probe ray and the search along it.\<close>

definition probeAttempt ::
  "nat \<Rightarrow> ('f::{zero,one,plus,minus,times,inverse,ord,abs}) intrinsics \<Rightarrow> ('f, 'g) device
     \<Rightarrow> 'f scene \<Rightarrow> (nat \<Rightarrow> bool) \<Rightarrow> 'f diffusion \<Rightarrow> ('f, 'g) frame \<Rightarrow> 'f probe
     \<Rightarrow> (('f, 'g) frame \<times> 'f probe) result" where
  "probeAttempt fuel I D S lanes de k pr =
     (case rd D k of (r1, k1) \<Rightarrow> case rd D k1 of (r2, k2) \<Rightarrow> case rd D k2 of (r3, k3) \<Rightarrow>
      case rd D k3 of (r4, k4) \<Rightarrow> case rd D k4 of (r5, k5) \<Rightarrow>
        (case sampleBSSRDFprobeRaySoE D r1 r2 r3 r4 r5 (nl k5) (hitpoint k5) (sigmaT de) (rho de)
                (vx de) (vy de) of
           (orig, dir, len, radius) \<Rightarrow>
             searchLoop fuel I D S lanes 0 k5
               (pr\<lparr>probeRayOrig := orig, probeRayDir := dir, probeRayLength := len,
                    sampledRadius := radius\<rparr>)))"

text \<open>
  The loop of the attempts: \<open>for (maxLoop = 100; hitCount == 0 && maxLoop > 0; --maxLoop)\<close>.
  The result carries the value of \<open>maxLoop\<close> at the exit.
\<close>

function probeLoop ::
  "nat \<Rightarrow> ('f::{zero,one,plus,minus,times,inverse,ord,abs}) intrinsics \<Rightarrow> ('f, 'g) device
     \<Rightarrow> 'f scene \<Rightarrow> (nat \<Rightarrow> bool) \<Rightarrow> 'f diffusion \<Rightarrow> int \<Rightarrow> ('f, 'g) frame \<Rightarrow> 'f probe
     \<Rightarrow> (int \<times> ('f, 'g) frame \<times> 'f probe) result" where
  "probeLoop fuel I D S lanes de maxLoop k pr =
     (if hitCount pr = 0 \<and> maxLoop > 0 then
        (case probeAttempt fuel I D S lanes de k pr of
           Result (k1, pr1) \<Rightarrow> probeLoop fuel I D S lanes de (maxLoop - 1) k1 pr1
         | UB \<Rightarrow> UB
         | OutOfFuel \<Rightarrow> OutOfFuel)
      else Result (maxLoop, k, pr))"
  by pat_completeness auto
termination
  by (relation "measure (\<lambda>(fuel, I, D, S, lanes, de, maxLoop, k, pr). nat maxLoop)") auto

text \<open>The local reflection at the entry point (lines 774 to 775 and 861 to 862).\<close>

definition localReflection ::
  "('f::{plus,times}) intrinsics \<Rightarrow> ('f, 'g) frame \<Rightarrow> ('f, 'g) frame" where
  "localReflection I k =
     (let k1 = nudge I k
      in k1\<lparr>mask := vmul (mask k1) (vmul (vscale (beta k1) (ks (mat k1))) (objcol (mat k1)))\<rparr>)"

text \<open>The index of the exit point chosen (line 867).\<close>

definition nextPointIdx :: "('f::times) intrinsics \<Rightarrow> 'f \<Rightarrow> int \<Rightarrow> int" where
  "nextPointIdx I r count = float2int I (r * int2float I count)"

definition fresnelOut ::
  "('f::{one,minus,times,inverse}) intrinsics \<Rightarrow> ('f, 'g) device \<Rightarrow> 'f \<Rightarrow> 'f \<Rightarrow> 'f" where
  "fresnelOut I D c eta = (1 - FrD D c 1 eta) / (1 - flit I 2 * FM1 D (1 / eta))"

text \<open>The choice of the exit point and the new path vertex (lines 866 to 901).\<close>

definition chooseExit ::
  "('f::{zero,one,plus,minus,times,inverse,ord,abs}) intrinsics \<Rightarrow> ('f, 'g) device
     \<Rightarrow> 'f diffusion \<Rightarrow> ('f, 'g) frame \<Rightarrow> 'f probe \<Rightarrow> ('f, 'g) frame result" where
  "chooseExit I D de k pr =
     (case rd D k of (r, k1) \<Rightarrow>
        (let idx = nextPointIdx I r (hitCount pr)
         in if 0 \<le> idx \<and> idx < int maxSurfaceHit then
              (let i = nat idx;
                   nextNormal = normalize D (probeHitPointNormal pr i);
                   nextHitPoint = probeHitPoint pr i;
                   nextColor = probeHitPointColor pr i
               in case rd D k1 of (r1, k2) \<Rightarrow> case rd D k2 of (r2, k3) \<Rightarrow>
                 (let k4 = k3\<lparr>nextdir := lambertianReflection D r1 r2 nextNormal\<rparr>;
                      k5 = k4\<lparr>beta := calculateBSSRDFSoE D (nl k4) nextNormal (sigmaT de) (rho de)
                                        (beta k4) (probeRayVec pr) (vx de) (vy de)
                                        (scaleFactor (mat k4))\<rparr>;
                      k6 = k5\<lparr>mask := vmul (mask k5)
                                 (vmul (vscale (vscale (beta k5) (int2float I (hitCount pr)))
                                          (kd (mat k5))) nextColor)\<rparr>;
                      k7 = (if nearLight I (flit I (2 / 100)) nextHitPoint then
                              (let lightDir = Vec3f 0 1 0;
                                   sf = fresnelOut I D (dot lightDir nextNormal) (etaT (mat k6))
                                        * invPi D;
                                   surfaceF = Vec3f sf sf sf;
                                   scatteringPdf = abs (dot lightDir (nl k6)) * invPi D
                               in k6\<lparr>accucolor := vadd (accucolor k6)
                                      (misWeight scatteringPdf (vmul (mask k6) surfaceF))\<rparr>)
                            else k6);
                      k8 = k7\<lparr>hitpoint := vadd nextHitPoint (scalev (RAY_MIN I) nextNormal)\<rparr>;
                      outS = fresnelOut I D (dot (nextdir k8) nextNormal) (etaT (mat k8))
                  in Result (k8\<lparr>mask := vscale (mask k8) outS\<rparr>)))
            else UB))"

text \<open>
  The branch \<open>MAT_SUBSURFACE\<close> (lines 769 to 902).  \<open>entrySample\<close> is what
  \<open>microfacetSampling\<close> returns at the entry point (\<open>refl\<close>, \<open>sampledNormal\<close>, \<open>beta\<close>,
  \<open>nextdir\<close>) and the frame then; \<open>diffusionOf\<close> is the material and the frame of lines 781
  to 791.  \<open>junk\<close> is what the uninitialised locals of the branch hold at its entry.
\<close>

definition entrySample ::
  "('f, 'g) device \<Rightarrow> bool \<Rightarrow> ('f, 'g) frame
     \<Rightarrow> (bool \<times> 'f Vec3f \<times> 'f Vec3f \<times> 'f Vec3f) \<times> ('f, 'g) frame" where
  "entrySample D into k =
     (case rd D k of (r1, k1) \<Rightarrow> case rd D k1 of (r2, k2) \<Rightarrow>
        (microfacetSampling D r1 r2 into (raydir k2) (nl k2) (etaT (mat k2)) (alphax (mat k2)),
         k2))"

definition diffusionOf ::
  "('f::{zero,plus,times}) intrinsics \<Rightarrow> ('f, 'g) device \<Rightarrow> ('f, 'g) frame \<Rightarrow> 'f diffusion" where
  "diffusionOf I D k =
     (let med = scaleMedium (skinMedium I 0) (scaleFactor (mat k))
      in case localizeSample D (nl k) of
           (lx, ly) \<Rightarrow> \<lparr> sigmaT = getSigmaT med, rho = objcol (mat k), vx = lx, vy = ly \<rparr>)"

definition shadeSubsurface ::
  "nat \<Rightarrow> ('f::{zero,one,plus,minus,times,inverse,ord,abs}) intrinsics \<Rightarrow> ('f, 'g) device
     \<Rightarrow> 'f scene \<Rightarrow> (nat \<Rightarrow> bool) \<Rightarrow> 'f probe \<Rightarrow> bool \<Rightarrow> ('f, 'g) frame
     \<Rightarrow> ('f, 'g) frame result" where
  "shadeSubsurface fuel I D S lanes junk into k =
     (case entrySample D into k of
        ((reflB, sampledNormal, b, nd), k2) \<Rightarrow>
          (let k3 = k2\<lparr>beta := b, nextdir := nd\<rparr>
           in if reflB then Result (localReflection I k3)
              else
                rbind (probeLoop fuel I D S lanes (diffusionOf I D k3) 100 k3
                         (junk\<lparr>hitCount := 0\<rparr>))
                  (\<lambda>(maxLoop, k4, pr).
                     if hitCount pr = 0 then Result (localReflection I k4)
                     else chooseExit I D (diffusionOf I D k3) k4 pr)))"

subsection \<open>The bounce loop\<close>

text \<open>
  How a piece of the loop body ends: it goes on to the increment of the loop (\<open>break\<close> out
  of the \<open>switch\<close>, or \<open>continue\<close>), or the kernel returns a colour.
\<close>

datatype ('f, 'g) flow = Break "('f, 'g) frame" | Return "'f Vec3f"

text \<open>The \<open>switch\<close> over the material (lines 684 to 906).\<close>

definition shade ::
  "nat \<Rightarrow> ('f::{zero,one,plus,minus,times,inverse,ord,abs}) intrinsics \<Rightarrow> ('f, 'g) device
     \<Rightarrow> 'f scene \<Rightarrow> (nat \<Rightarrow> bool) \<Rightarrow> 'f probe \<Rightarrow> bool \<Rightarrow> ('f, 'g) frame
     \<Rightarrow> ('f, 'g) flow result" where
  "shade fuel I D S lanes junk into k =
     (case refltype (mat k) of
        MAT_DIFF \<Rightarrow> Result (Break (shadeDiff I D k))
      | MAT_REFL \<Rightarrow> Result (Break (shadeRefl I D k))
      | MAT_DIFF_REFL \<Rightarrow> Result (Break (shadeDiffRefl I D k))
      | MAT_FRESNEL \<Rightarrow> Result (Break (shadeFresnel I D k))
      | MAT_GLASS \<Rightarrow> Result (Break (shadeGlass I D into k))
      | MAT_EMIT \<Rightarrow> Result (Return (accucolor k))
      | MAT_MEDIUM \<Rightarrow> Result (Break (shadeMedium I into k))
      | MAT_SUBSURFACE \<Rightarrow>
          rbind (shadeSubsurface fuel I D S lanes junk into k) (\<lambda>k1. Result (Break k1))
      | MAT_NULL \<Rightarrow> Result (Break (shadeNull I k)))"

text \<open>
  The block of the participating media (lines 622 to 638); the flag says whether it ends
  in \<open>continue\<close>.
\<close>

definition mediaStep ::
  "('f::{zero,plus,times}) intrinsics \<Rightarrow> ('f, 'g) device \<Rightarrow> ('f, 'g) frame
     \<Rightarrow> ('f, 'g) frame \<times> bool" where
  "mediaStep I D k =
     (if medium k \<noteq> MEDIUM_NO then
        (let med = Medium (vscale (sigmaS (skinMedium I (flit I (1 / 2)))) (flit I 1000))
                          (vscale (sigmaA (skinMedium I (flit I (1 / 2)))) (flit I 500))
                          (flit I (1 / 2))
         in case rd D k of (r1, k1) \<Rightarrow> case rd D k1 of (r2, k2) \<Rightarrow>
            case rd D k2 of (r3, k3) \<Rightarrow> case rd D k3 of (r4, k4) \<Rightarrow>
              (case HomogeneousMedium D r1 r2 r3 r4 (mask k4) (getSigmaT med) (sigmaS med)
                      (hg med) (sceneT k4) (rayorig k4) (raydir k4) of
                 (mk, hp, nd, sampledMedium) \<Rightarrow>
                   (let k5 = k4\<lparr>mask := mk, hitpoint := hp, nextdir := nd\<rparr>;
                        k6 = k5\<lparr>accucolor := vadd (accucolor k5)
                                  (vmul (scalev (flit I (5 / 100)) (mask k5))
                                        (envLight (nextdir k5)))\<rparr>
                    in if sampledMedium
                       then (k6\<lparr>rayorig := hitpoint k6, raydir := nextdir k6\<rparr>, True)
                       else (k6, False))))
      else (k, False))"

text \<open>The interaction with the surface (lines 640 to 909).\<close>

definition surfaceStep ::
  "nat \<Rightarrow> ('f::{zero,one,plus,minus,uminus,times,inverse,ord,abs}) intrinsics
     \<Rightarrow> ('f, 'g) device \<Rightarrow> 'f scene \<Rightarrow> (nat \<Rightarrow> bool) \<Rightarrow> 'f probe \<Rightarrow> ('f, 'g) frame
     \<Rightarrow> ('f, 'g) flow result" where
  "surfaceStep fuel I D S lanes junk k =
     (let k1 = k\<lparr>hitpoint := vadd (rayorig k) (vscale (raydir k) (sceneT k))\<rparr>;
          k2 = (if geometryType k1 = GEO_TRIANGLE then describeTriangle I D S k1
                else if geometryType k1 = GEO_GROUND then k1\<lparr>mat := (mat k1)\<lparr>refltype := MAT_DIFF\<rparr>\<rparr>
                else if geometryType k1 = GEO_SPHERE then k1\<lparr>mat := (mat k1)\<lparr>refltype := MAT_DIFF\<rparr>\<rparr>
                else k1);
          k3 = k2\<lparr>surfN := normalize D (surfN k2)\<rparr>;
          into = (dot (surfN k3) (raydir k3) < 0);
          k4 = k3\<lparr>nl := (if into then surfN k3 else vscale (surfN k3) (- 1))\<rparr>;
          k5 = k4\<lparr>accucolor := vadd (accucolor k4) (vmul (mask k4) (emit (mat k4)))\<rparr>
      in rbind (shade fuel I D S lanes junk into k5)
           (\<lambda>fl. case fl of
                    Break k6 \<Rightarrow> Result (Break (k6\<lparr>rayorig := hitpoint k6, raydir := nextdir k6\<rparr>))
                  | Return c \<Rightarrow> Result (Return c)))"

text \<open>
  The head of the loop body (lines 552 to 612): the initialisation, the traversal of the
  scene and the update of the nearest hit.
\<close>

definition closestHit ::
  "nat \<Rightarrow> ('f::{zero,one,plus,minus,uminus,times,inverse,ord,abs}) intrinsics \<Rightarrow> 'f scene
     \<Rightarrow> (nat \<Rightarrow> bool) \<Rightarrow> ('f, 'g) frame \<Rightarrow> ('f, 'g) frame result" where
  "closestHit fuel I S lanes k =
     (let k0 = initBounce I k
      in rbind (intersectBVHandTriangles fuel I S lanes (votes k0)
                  (make_float4 (v3x (rayorig k0)) (v3y (rayorig k0)) (v3z (rayorig k0)) (RAY_MIN I))
                  (make_float4 (v3x (raydir k0)) (v3y (raydir k0)) (v3z (raydir k0)) (RAY_MAX I))
                  (trinormalK k0) False)
           (\<lambda>(idx, d, nrm, b).
              (let k1 = k0\<lparr>hitTriAddr := idx, hitDistance := d, trinormalK := nrm, votes := b\<rparr>
               in Result (if hitDistance k1 < sceneT k1 \<and> hitDistance k1 > RAY_MIN I
                          then k1\<lparr>sceneT := hitDistance k1, surfN := trinormalK k1,
                                  geometryType := GEO_TRIANGLE\<rparr>
                          else k1))))"

text \<open>The body of the loop over the bounces (lines 552 to 909).\<close>

definition bounce ::
  "nat \<Rightarrow> ('f::{zero,one,plus,minus,uminus,times,inverse,ord,abs}) intrinsics
     \<Rightarrow> ('f, 'g) device \<Rightarrow> 'f scene \<Rightarrow> (nat \<Rightarrow> bool) \<Rightarrow> 'f probe \<Rightarrow> ('f, 'g) frame
     \<Rightarrow> ('f, 'g) flow result" where
  "bounce fuel I D S lanes junk k =
     rbind (closestHit fuel I S lanes k)
       (\<lambda>k2. if sceneT k2 > flit I (10 ^ 10) then
                (let k3 = k2\<lparr>mat := (mat k2)\<lparr>emit := envLight (raydir k2)\<rparr>\<rparr>
                 in Result (Return (vadd (accucolor k3) (vmul (mask k3) (emit (mat k3))))))
              else
                (case mediaStep I D k2 of
                   (k3, continue) \<Rightarrow>
                     if continue then Result (Break k3)
                     else surfaceStep fuel I D S lanes junk k3))"

text \<open>The loop: \<open>for (bounces = 0; bounces < LIGHT_BOUNCE; bounces++)\<close>, \<open>USE_RUSSIAN\<close> false.\<close>

function renderLoop ::
  "nat \<Rightarrow> ('f::{zero,one,plus,minus,uminus,times,inverse,ord,abs}) intrinsics
     \<Rightarrow> ('f, 'g) device \<Rightarrow> 'f scene \<Rightarrow> (nat \<Rightarrow> bool) \<Rightarrow> 'f probe \<Rightarrow> int \<Rightarrow> ('f, 'g) frame
     \<Rightarrow> 'f Vec3f result" where
  "renderLoop fuel I D S lanes junk bounces k =
     (if bounces < LIGHT_BOUNCE then
        (case bounce fuel I D S lanes junk k of
           Result (Break k1) \<Rightarrow> renderLoop fuel I D S lanes junk (bounces + 1) k1
         | Result (Return c) \<Rightarrow> Result c
         | UB \<Rightarrow> UB
         | OutOfFuel \<Rightarrow> OutOfFuel)
      else Result (accucolor k))"
  by pat_completeness auto
termination
  by (relation "measure (\<lambda>(fuel, I, D, S, lanes, junk, bounces, k). nat (LIGHT_BOUNCE - bounces))")
    auto

text \<open>
  The kernel.  \<open>k0\<close> is what the uninitialised variables hold at the entry and the number of
  votes the thread has taken; the initialisers of lines 534 to 542 are set over it.
\<close>

definition startFrame ::
  "('f::{zero,one}, 'g) frame \<Rightarrow> 'g \<Rightarrow> 'f Vec3f \<Rightarrow> 'f Vec3f \<Rightarrow> ('f, 'g) frame" where
  "startFrame k0 rdState0 rayorig0 raydir0 =
     k0\<lparr>rayorig := rayorig0, raydir := raydir0, rdState := rdState0,
        mask := Vec3f 1 1 1, accucolor := Vec3f 0 0 0,
        medium := MEDIUM_NO, bssrdfMatId := - 1\<rparr>"

definition renderKernel ::
  "nat \<Rightarrow> ('f::{zero,one,plus,minus,uminus,times,inverse,ord,abs}) intrinsics
     \<Rightarrow> ('f, 'g) device \<Rightarrow> 'f scene \<Rightarrow> (nat \<Rightarrow> bool) \<Rightarrow> 'f probe \<Rightarrow> ('f, 'g) frame
     \<Rightarrow> 'g \<Rightarrow> 'f Vec3f \<Rightarrow> 'f Vec3f \<Rightarrow> 'f Vec3f result" where
  "renderKernel fuel I D S lanes junk k0 rdState0 rayorig0 raydir0 =
     renderLoop fuel I D S lanes junk 0 (startFrame k0 rdState0 rayorig0 raydir0)"

text \<open>
  The variables of the kernel at the head of the \<open>j\<close>-th pass through the loop body, when the
  kernel gets there.
\<close>

fun frameAt ::
  "nat \<Rightarrow> nat \<Rightarrow> ('f::{zero,one,plus,minus,uminus,times,inverse,ord,abs}) intrinsics
     \<Rightarrow> ('f, 'g) device \<Rightarrow> 'f scene \<Rightarrow> (nat \<Rightarrow> bool) \<Rightarrow> 'f probe \<Rightarrow> ('f, 'g) frame
     \<Rightarrow> ('f, 'g) frame option" where
  "frameAt 0 fuel I D S lanes junk k = Some k"
| "frameAt (Suc j) fuel I D S lanes junk k =
     (case frameAt j fuel I D S lanes junk k of
        Some k1 \<Rightarrow>
          (if int j < LIGHT_BOUNCE then
             (case bounce fuel I D S lanes junk k1 of
                Result (Break k2) \<Rightarrow> Some k2
              | Result (Return c) \<Rightarrow> None
              | UB \<Rightarrow> None
              | OutOfFuel \<Rightarrow> None)
           else None)
      | None \<Rightarrow> None)"

section \<open>A binary32 instance\<close>

text \<open>
  IEEE 754 single precision with round to nearest, ties to even: a float is its 32 bits,
  read as a number between 0 and \<open>2 ^ 32\<close>.  The operations decode the bits, compute on
  the reals and round the result.
\<close>

datatype f32 = Bits (bits: int)

datatype fval = NaN | Inf bool | Fin bool real

definition pow2 :: "int \<Rightarrow> real" where
  "pow2 e = (if 0 \<le> e then 2 ^ nat e else 1 / 2 ^ nat (- e))"

definition unpack :: "bool \<Rightarrow> int \<Rightarrow> int \<Rightarrow> fval" where
  "unpack s e m =
     (if e = 255 then (if m = 0 then Inf s else NaN)
      else if e = 0 then Fin s (of_int m * pow2 (- 149))
      else Fin s (of_int (2 ^ 23 + m) * pow2 (e - 150)))"

definition decode :: "f32 \<Rightarrow> fval" where
  "decode a = unpack ((bits a div 2 ^ 31) mod 2 = 1) ((bits a div 2 ^ 23) mod 256) (bits a mod 2 ^ 23)"

text \<open>The number of bits of a natural number below \<open>2 ^ 256\<close>, by bisection.\<close>

definition bl1 :: "int \<Rightarrow> int" where
  "bl1 x = (if x < 1 then 0 else 1)"

definition bl2 :: "int \<Rightarrow> int" where
  "bl2 x = (if x < 2 then bl1 x else 1 + bl1 (x div 2))"

definition bl4 :: "int \<Rightarrow> int" where
  "bl4 x = (if x < 2 ^ 2 then bl2 x else 2 + bl2 (x div 2 ^ 2))"

definition bl8 :: "int \<Rightarrow> int" where
  "bl8 x = (if x < 2 ^ 4 then bl4 x else 4 + bl4 (x div 2 ^ 4))"

definition bl16 :: "int \<Rightarrow> int" where
  "bl16 x = (if x < 2 ^ 8 then bl8 x else 8 + bl8 (x div 2 ^ 8))"

definition bl32 :: "int \<Rightarrow> int" where
  "bl32 x = (if x < 2 ^ 16 then bl16 x else 16 + bl16 (x div 2 ^ 16))"

definition bl64 :: "int \<Rightarrow> int" where
  "bl64 x = (if x < 2 ^ 32 then bl32 x else 32 + bl32 (x div 2 ^ 32))"

definition bl128 :: "int \<Rightarrow> int" where
  "bl128 x = (if x < 2 ^ 64 then bl64 x else 64 + bl64 (x div 2 ^ 64))"

definition bl256 :: "int \<Rightarrow> int" where
  "bl256 x = (if x < 2 ^ 128 then bl128 x else 128 + bl128 (x div 2 ^ 128))"

text \<open>The exponent of the binade of a positive number between \<open>2 ^ - 255\<close> and \<open>2 ^ 255\<close>.\<close>

definition ilog2 :: "real \<Rightarrow> int" where
  "ilog2 q = (if 1 \<le> q then bl256 \<lfloor>q\<rfloor> - 1 else - bl256 (- \<lfloor>- (1 / q)\<rfloor> - 1))"

definition tiesEven :: "real \<Rightarrow> int \<Rightarrow> int" where
  "tiesEven x f =
     (if x - of_int f < 1 / 2 then f else if 1 / 2 < x - of_int f then f + 1
      else if even f then f else f + 1)"

definition roundEven :: "real \<Rightarrow> int" where
  "roundEven x = tiesEven x \<lfloor>x\<rfloor>"

definition signBit :: "bool \<Rightarrow> int" where
  "signBit s = (if s then 2 ^ 31 else 0)"

definition pack :: "bool \<Rightarrow> real \<Rightarrow> int \<Rightarrow> f32" where
  "pack s q e =
     Bits (signBit s + min ((e + 126) * 2 ^ 23 + roundEven (q * pow2 (23 - e))) (255 * 2 ^ 23))"

definition encode :: "bool \<Rightarrow> real \<Rightarrow> f32" where
  "encode s q = (if q = 0 then Bits (signBit s) else pack s q (max (ilog2 q) (- 126)))"

definition qNaN :: f32 where
  "qNaN = Bits 0x7FFFFFFF"

definition finf :: "bool \<Rightarrow> f32" where
  "finf s = Bits (signBit s + 255 * 2 ^ 23)"

definition signed :: "bool \<Rightarrow> real \<Rightarrow> real" where
  "signed s q = (if s then - q else q)"

definition ofReal :: "real \<Rightarrow> f32" where
  "ofReal x = encode (x < 0) \<bar>x\<bar>"

fun fadd :: "fval \<Rightarrow> fval \<Rightarrow> f32" where
  "fadd NaN _ = qNaN"
| "fadd _ NaN = qNaN"
| "fadd (Inf s) (Inf s') = (if s = s' then finf s else qNaN)"
| "fadd (Inf s) (Fin _ _) = finf s"
| "fadd (Fin _ _) (Inf s) = finf s"
| "fadd (Fin s q) (Fin s' q') =
     (if signed s q + signed s' q' = 0 then Bits (signBit (s \<and> s'))
      else ofReal (signed s q + signed s' q'))"

fun fmul :: "fval \<Rightarrow> fval \<Rightarrow> f32" where
  "fmul NaN _ = qNaN"
| "fmul _ NaN = qNaN"
| "fmul (Inf s) (Inf s') = finf (s \<noteq> s')"
| "fmul (Inf s) (Fin s' q) = (if q = 0 then qNaN else finf (s \<noteq> s'))"
| "fmul (Fin s q) (Inf s') = (if q = 0 then qNaN else finf (s \<noteq> s'))"
| "fmul (Fin s q) (Fin s' q') = encode (s \<noteq> s') (q * q')"

fun fdiv :: "fval \<Rightarrow> fval \<Rightarrow> f32" where
  "fdiv NaN _ = qNaN"
| "fdiv _ NaN = qNaN"
| "fdiv (Inf s) (Inf s') = qNaN"
| "fdiv (Inf s) (Fin s' q) = finf (s \<noteq> s')"
| "fdiv (Fin s q) (Inf s') = Bits (signBit (s \<noteq> s'))"
| "fdiv (Fin s q) (Fin s' q') =
     (if q' = 0 then (if q = 0 then qNaN else finf (s \<noteq> s'))
      else encode (s \<noteq> s') (q / q'))"

fun flt :: "fval \<Rightarrow> fval \<Rightarrow> bool" where
  "flt NaN _ = False"
| "flt _ NaN = False"
| "flt (Inf s) (Inf s') = (s \<and> \<not> s')"
| "flt (Inf s) (Fin _ _) = s"
| "flt (Fin _ _) (Inf s) = (\<not> s)"
| "flt (Fin s q) (Fin s' q') = (signed s q < signed s' q')"

fun feq :: "fval \<Rightarrow> fval \<Rightarrow> bool" where
  "feq NaN _ = False"
| "feq _ NaN = False"
| "feq (Inf s) (Inf s') = (s = s')"
| "feq (Inf s) (Fin _ _) = False"
| "feq (Fin _ _) (Inf s) = False"
| "feq (Fin s q) (Fin s' q') = (signed s q = signed s' q')"

instantiation f32 :: "{zero,one,plus,minus,uminus,times,inverse,ord,abs}"
begin

definition zero_f32 :: f32 where
  "zero_f32 = Bits 0"

definition one_f32 :: f32 where
  "one_f32 = Bits 0x3F800000"

definition uminus_f32 :: "f32 \<Rightarrow> f32" where
  "uminus_f32 a = Bits ((bits a + 2 ^ 31) mod 2 ^ 32)"

definition abs_f32 :: "f32 \<Rightarrow> f32" where
  "abs_f32 a = Bits (bits a mod 2 ^ 31)"

definition plus_f32 :: "f32 \<Rightarrow> f32 \<Rightarrow> f32" where
  "plus_f32 a b = fadd (decode a) (decode b)"

definition minus_f32 :: "f32 \<Rightarrow> f32 \<Rightarrow> f32" where
  "minus_f32 a b = fadd (decode a) (decode (- b))"

definition times_f32 :: "f32 \<Rightarrow> f32 \<Rightarrow> f32" where
  "times_f32 a b = fmul (decode a) (decode b)"

definition divide_f32 :: "f32 \<Rightarrow> f32 \<Rightarrow> f32" where
  "divide_f32 a b = fdiv (decode a) (decode b)"

definition inverse_f32 :: "f32 \<Rightarrow> f32" where
  "inverse_f32 a = fdiv (decode (Bits 0x3F800000)) (decode a)"

definition less_f32 :: "f32 \<Rightarrow> f32 \<Rightarrow> bool" where
  "less_f32 a b = flt (decode a) (decode b)"

definition less_eq_f32 :: "f32 \<Rightarrow> f32 \<Rightarrow> bool" where
  "less_eq_f32 a b = (flt (decode a) (decode b) \<or> feq (decode a) (decode b))"

instance ..

end

text \<open>
  The intrinsics on binary32.  \<open>exp2f\<close> is the power of two at an integral argument, which
  is where the kernel calls it (\<open>exp2f(-80.0f)\<close>), and NaN elsewhere.  The conversion to
  \<open>int\<close> rounds towards zero and saturates, NaN giving 0.
\<close>

definition exp2f32 :: "f32 \<Rightarrow> f32" where
  "exp2f32 a =
     (case decode a of
        Fin s q \<Rightarrow> if of_int \<lfloor>q\<rfloor> = q then encode False (pow2 (\<lfloor>signed s q\<rfloor>)) else qNaN
      | Inf s \<Rightarrow> if s then Bits 0 else finf False
      | NaN \<Rightarrow> qNaN)"

definition copysignf32 :: "f32 \<Rightarrow> f32 \<Rightarrow> f32" where
  "copysignf32 a b = Bits (bits a mod 2 ^ 31 + ((bits b div 2 ^ 31) mod 2) * 2 ^ 31)"

definition fminf32 :: "f32 \<Rightarrow> f32 \<Rightarrow> f32" where
  "fminf32 a b =
     (if decode a = NaN then b else if decode b = NaN then a else if b < a then b else a)"

definition fmaxf32 :: "f32 \<Rightarrow> f32 \<Rightarrow> f32" where
  "fmaxf32 a b =
     (if decode a = NaN then b else if decode b = NaN then a else if a < b then b else a)"

definition float_as_int32 :: "f32 \<Rightarrow> int" where
  "float_as_int32 a = (if bits a < 2 ^ 31 then bits a else bits a - 2 ^ 32)"

definition float2int32 :: "f32 \<Rightarrow> int" where
  "float2int32 a =
     (case decode a of
        Fin s q \<Rightarrow> max (- (2 ^ 31)) (min (2 ^ 31 - 1) (if s then - \<lfloor>q\<rfloor> else \<lfloor>q\<rfloor>))
      | Inf s \<Rightarrow> if s then - (2 ^ 31) else 2 ^ 31 - 1
      | NaN \<Rightarrow> 0)"

definition I32 :: "f32 intrinsics" where
  "I32 = \<lparr> exp2f = exp2f32, fabsf = abs, copysignf = copysignf32, fminf = fminf32,
           fmaxf = fmaxf32, fequal = (\<lambda>a b. feq (decode a) (decode b)),
           float_as_int = float_as_int32, int_as_float = (\<lambda>i. Bits (i mod 2 ^ 32)),
           int2float = (\<lambda>i. ofReal (of_int i)), float2int = float2int32, flit = ofReal \<rparr>"

text \<open>
  A scene of one triangle, with the corners \<open>(0, 0, 0)\<close>, \<open>(1, 0, 0)\<close> and \<open>(0, 1, 0)\<close>, of
  material 7.  The root of the hierarchy has two leaves: the first holds the triangle, at
  address 0 of the triangle array, the second is empty, far from the triangle.  A fetch
  outside a buffer returns zeros.
\<close>

definition texOf :: "f32 float4 list \<Rightarrow> int \<Rightarrow> f32 float4" where
  "texOf xs a = (if 0 \<le> a \<and> a < int (length xs) then xs ! nat a else make_float4 0 0 0 0)"

definition row :: "real \<Rightarrow> real \<Rightarrow> real \<Rightarrow> real \<Rightarrow> f32 float4" where
  "row a b c d = make_float4 (ofReal a) (ofReal b) (ofReal c) (ofReal d)"

definition scene1 :: "f32 scene" where
  "scene1 =
     \<lparr> bvhNodesTexture = texOf
         [row 0 1 0 1, row 10 11 10 11, row (- 1 / 8) (1 / 8) 10 11,
          make_float4 (Bits 0xFFFFFFFF) (Bits 0xFFFFFFFB) 0 0],
       triWoopTexture = texOf
         [row 0 0 1 0, row 1 0 0 0, row 0 1 0 0, make_float4 (Bits 0x80000000) 0 0 0,
          make_float4 (Bits 0x80000000) 0 0 0],
       triDebugTexture = texOf [row 0 0 0 0, row 1 0 0 0, row 0 1 0 0],
       triIndicesTexture = (\<lambda>a. 0),
       triUvTexture = (\<lambda>a. (0, 0)),
       triNormalTexture = texOf [row 0 0 1 0, row 0 0 1 0, row 0 0 1 0],
       triMaterialTexture = (\<lambda>a. 7),
       colorTexture = (\<lambda>u v. make_float4 1 1 1 1) \<rparr>"

section \<open>Concrete inputs\<close>

text \<open>No other lane of the warp is searching.\<close>

definition idle :: "nat \<Rightarrow> bool" where
  "idle k = False"

text \<open>
  Three rays along \<open>+z\<close> from \<open>z = -1\<close> with the range of the kernel's rays: the first
  meets the triangle of \<open>scene1\<close> at distance 1, the second passes its box by, the third
  enters the box and passes the triangle by.
\<close>

definition hitOrig :: "f32 float4" where
  "hitOrig = make_float4 (ofReal (1 / 4)) (ofReal (1 / 4)) (ofReal (- 1)) (RAY_MIN I32)"

definition missOrig :: "f32 float4" where
  "missOrig = make_float4 (ofReal 5) (ofReal 5) (ofReal (- 1)) (RAY_MIN I32)"

definition edgeOrig :: "f32 float4" where
  "edgeOrig = make_float4 (ofReal (3 / 4)) (ofReal (3 / 4)) (ofReal (- 1)) (RAY_MIN I32)"

definition upDir :: "f32 float4" where
  "upDir = make_float4 0 0 1 (RAY_MAX I32)"

text \<open>The locals that \<open>fetchRay\<close> computes for the three rays, and the values of the scene.\<close>

definition hitLocals :: "f32 raylocals" where
  "hitLocals =
     \<lparr> origx = Bits 1048576000, origy = Bits 1048576000, origz = Bits 3212836864,
       dirx = Bits 0, diry = Bits 0, dirz = Bits 1065353216, tmin = Bits 925353388,
       idirx = Bits 1736441856, idiry = Bits 1736441856, idirz = Bits 1065353216,
       oodx = Bits 1719664640, oody = Bits 1719664640, oodz = Bits 3212836864 \<rparr>"

definition edgeLocals :: "f32 raylocals" where
  "edgeLocals =
     \<lparr> origx = Bits 1061158912, origy = Bits 1061158912, origz = Bits 3212836864,
       dirx = Bits 0, diry = Bits 0, dirz = Bits 1065353216, tmin = Bits 925353388,
       idirx = Bits 1736441856, idiry = Bits 1736441856, idirz = Bits 1065353216,
       oodx = Bits 1732247552, oody = Bits 1732247552, oodz = Bits 3212836864 \<rparr>"

definition missLocals :: "f32 raylocals" where
  "missLocals =
     \<lparr> origx = Bits 1084227584, origy = Bits 1084227584, origz = Bits 3212836864,
       dirx = Bits 0, diry = Bits 0, dirz = Bits 1065353216, tmin = Bits 925353388,
       idirx = Bits 1736441856, idiry = Bits 1736441856, idirz = Bits 1065353216,
       oodx = Bits 1755316224, oody = Bits 1755316224, oodz = Bits 3212836864 \<rparr>"

definition scene1bits :: "f32 scene" where
  "scene1bits =
     \<lparr> bvhNodesTexture = texOf
         [make_float4 (Bits 0) (Bits 1065353216) (Bits 0) (Bits 1065353216),
          make_float4 (Bits 1092616192) (Bits 1093664768) (Bits 1092616192) (Bits 1093664768),
          make_float4 (Bits 3187671040) (Bits 1040187392) (Bits 1092616192) (Bits 1093664768),
          make_float4 (Bits 0xFFFFFFFF) (Bits 0xFFFFFFFB) (Bits 0) (Bits 0)],
       triWoopTexture = texOf
         [make_float4 (Bits 0) (Bits 0) (Bits 1065353216) (Bits 0),
          make_float4 (Bits 1065353216) (Bits 0) (Bits 0) (Bits 0),
          make_float4 (Bits 0) (Bits 1065353216) (Bits 0) (Bits 0),
          make_float4 (Bits 0x80000000) (Bits 0) (Bits 0) (Bits 0),
          make_float4 (Bits 0x80000000) (Bits 0) (Bits 0) (Bits 0)],
       triDebugTexture = texOf
         [make_float4 (Bits 0) (Bits 0) (Bits 0) (Bits 0),
          make_float4 (Bits 1065353216) (Bits 0) (Bits 0) (Bits 0),
          make_float4 (Bits 0) (Bits 1065353216) (Bits 0) (Bits 0)],
       triIndicesTexture = (\<lambda>a. 0),
       triUvTexture = (\<lambda>a. (Bits 0, Bits 0)),
       triNormalTexture = texOf
         [make_float4 (Bits 0) (Bits 0) (Bits 1065353216) (Bits 0),
          make_float4 (Bits 0) (Bits 0) (Bits 1065353216) (Bits 0),
          make_float4 (Bits 0) (Bits 0) (Bits 1065353216) (Bits 0)],
       triMaterialTexture = (\<lambda>a. 7),
       colorTexture = (\<lambda>u v. make_float4 (Bits 1065353216) (Bits 1065353216)
                                 (Bits 1065353216) (Bits 1065353216)) \<rparr>"

text \<open>
  A test double of the device functions, with fixed answers: every draw of the generator is
  \<open>u\<close>, the microfacet samplers answer the flag \<open>reflB\<close> and a \<open>beta\<close> of ones, and the probe
  ray starts at \<open>probeOrig\<close>, runs along \<open>+z\<close> and has length 2 and sampled radius 1.
\<close>

definition testDevice :: "f32 \<Rightarrow> bool \<Rightarrow> f32 Vec3f \<Rightarrow> (f32, nat) device" where
  "testDevice u reflB probeOrig =
     \<lparr> curand_uniform = (\<lambda>g. (u, Suc g)),
       invPi = Bits 0x3EA2F983,
       normalize = (\<lambda>v. v),
       vlength = (\<lambda>v. 1),
       Barycentric = (\<lambda>p a b c. (1, 0, 0)),
       lambertianReflection = (\<lambda>r1 r2 nrm. nrm),
       macrofacetReflection = (\<lambda>r1 r2 dir nrm tg f ax ay. (nrm, Vec3f 1 1 1)),
       fresnelBlend = (\<lambda>r1 r2 r3 dir nrm c f ax. (nrm, Vec3f 1 1 1)),
       specularGlass = (\<lambda>r into dir nrm eta. (dir, reflB)),
       macrofacetGlass = (\<lambda>r1 r2 r3 into dir nrm eta ax. (Vec3f 1 1 1, dir, reflB)),
       microfacetSampling = (\<lambda>r1 r2 into dir nrm eta ax. (reflB, nrm, Vec3f 1 1 1, dir)),
       localizeSample = (\<lambda>nrm. (Vec3f 1 0 0, Vec3f 0 1 0)),
       sampleBSSRDFprobeRaySoE =
         (\<lambda>r1 r2 r3 r4 r5 nrm p st rh lx ly. (probeOrig, Vec3f 0 0 1, ofReal 2, 1)),
       calculateBSSRDFSoE = (\<lambda>nrm nn st rh b v lx ly sc. Vec3f 1 1 1),
       FrD = (\<lambda>c a b. 0),
       FM1 = (\<lambda>x. 0),
       HomogeneousMedium = (\<lambda>r1 r2 r3 r4 m st ss g t orig dir. (m, orig, dir, False)) \<rparr>"

definition hitPoint3 :: "f32 Vec3f" where
  "hitPoint3 = Vec3f (ofReal (1 / 4)) (ofReal (1 / 4)) (ofReal (- 1))"

definition missPoint3 :: "f32 Vec3f" where
  "missPoint3 = Vec3f (ofReal 5) (ofReal 5) (ofReal (- 1))"

text \<open>A frame at a surface point with the default material, and the locals of a probing.\<close>

definition testFrame :: "(f32, nat) frame" where
  "testFrame =
     \<lparr> rayorig = hitPoint3, raydir = Vec3f 0 0 1, hitTriAddr = - 1, hitDistance = 0,
       sceneT = 0, geometryType = 0, hitpoint = Vec3f 0 0 0, surfN = Vec3f 0 0 1,
       nl = Vec3f 0 0 1, nextdir = Vec3f 0 0 0, trinormalK = Vec3f 0 0 0,
       mask = Vec3f 1 1 1, accucolor = Vec3f 0 0 0, beta = Vec3f 1 1 1, medium = MEDIUM_NO,
       bssrdfMatId = 7, rdState = 0, votes = 0, mat = defaultMaterial I32 \<rparr>"

definition testProbe :: "f32 probe" where
  "testProbe =
     \<lparr> hitCount = 0, sampledRadius = 0, probeRayOrig = Vec3f 0 0 0, probeRayDir = Vec3f 0 0 0,
       probeRayVec = Vec3f 0 0 0, probeNormal = Vec3f 0 0 0,
       probeHitPoint = (\<lambda>i. Vec3f 0 0 0), probeHitPointNormal = (\<lambda>i. Vec3f 0 0 0),
       probeHitPointColor = (\<lambda>i. Vec3f 0 0 0), probeRayLength = 0 \<rparr>"

definition mirrorFrame :: "(f32, nat) frame" where
  "mirrorFrame = testFrame\<lparr>mat := (defaultMaterial I32)\<lparr>refltype := MAT_REFL\<rparr>\<rparr>"

definition glassFrame :: "(f32, nat) frame" where
  "glassFrame =
     testFrame\<lparr>mat := (defaultMaterial I32)\<lparr>refltype := MAT_GLASS, alphax := ofReal (1 / 2)\<rparr>\<rparr>"

definition skinFrame :: "(f32, nat) frame" where
  "skinFrame =
     testFrame\<lparr>mat := (defaultMaterial I32)\<lparr>refltype := MAT_SUBSURFACE, alphax := ofReal (1 / 2)\<rparr>\<rparr>"

section \<open>Invariants\<close>

text \<open>
  The invariant of the hit: nothing is recorded and \<open>hitT\<close> is the \<open>t_max\<close> of the ray, or
  \<open>hitT\<close> is strictly between \<open>t_min\<close> and \<open>t_max\<close>.
\<close>

definition hitInv :: "'f::ord \<Rightarrow> 'f \<Rightarrow> 'f trav \<Rightarrow> bool" where
  "hitInv lo hi s \<longleftrightarrow> (hitIndex s = - 1 \<and> hitT s = hi) \<or> (lo < hitT s \<and> hitT s < hi)"

text \<open>
  The triangle tests of a run, in the order the run makes them: the address tested and the
  state of the traversal at the test.  The three functions follow the three loops; the states
  are those of the run itself.
\<close>

fun triTests ::
  "nat \<Rightarrow> ('f::{zero,one,plus,minus,times,inverse,ord}) intrinsics \<Rightarrow> 'f scene \<Rightarrow> 'f raylocals
     \<Rightarrow> bool \<Rightarrow> int \<Rightarrow> 'f trav \<Rightarrow> (int \<times> 'f trav) list" where
  "triTests 0 I S r anyHit triAddr s = []"
| "triTests (Suc k) I S r anyHit triAddr s =
     (if float_as_int I (f4x (triWoopTexture S triAddr)) mod 2 ^ 32 = 0x80000000 then []
      else (triAddr, s) #
        (case triBody S r anyHit triAddr s of
           (s1, brk) \<Rightarrow>
             if brk then []
             else if triAddr + 3 \<le> INT_MAX then triTests k I S r anyHit (triAddr + 3) s1
             else []))"

fun leafTests ::
  "nat \<Rightarrow> ('f::{zero,one,plus,minus,times,inverse,ord}) intrinsics \<Rightarrow> 'f scene \<Rightarrow> 'f raylocals
     \<Rightarrow> bool \<Rightarrow> 'f trav \<Rightarrow> (int \<times> 'f trav) list" where
  "leafTests 0 I S r anyHit s = []"
| "leafTests (Suc k) I S r anyHit s =
     (if leafAddr s < 0 then
        triTests k I S r anyHit (- leafAddr s - 1) s @
        (case triLoop k I S r anyHit (- leafAddr s - 1) s of
           Result s1 \<Rightarrow>
             (case nextLeaf s1 of
                Result s2 \<Rightarrow> leafTests k I S r anyHit s2
              | UB \<Rightarrow> []
              | OutOfFuel \<Rightarrow> [])
         | UB \<Rightarrow> []
         | OutOfFuel \<Rightarrow> [])
      else [])"

fun travTests ::
  "nat \<Rightarrow> ('f::{zero,one,plus,minus,times,inverse,ord}) intrinsics \<Rightarrow> 'f scene
     \<Rightarrow> (nat \<Rightarrow> bool) \<Rightarrow> 'f raylocals \<Rightarrow> bool \<Rightarrow> 'f trav \<Rightarrow> (int \<times> 'f trav) list" where
  "travTests 0 I S lanes r anyHit s = []"
| "travTests (Suc k) I S lanes r anyHit s =
     (if nodeAddr s \<noteq> EntrypointSentinel then
        (case innerLoop k I S lanes r s of
           Result s1 \<Rightarrow>
             leafTests k I S r anyHit s1 @
             (case leafLoop k I S r anyHit s1 of
                Result s2 \<Rightarrow> travTests k I S lanes r anyHit s2
              | UB \<Rightarrow> []
              | OutOfFuel \<Rightarrow> [])
         | UB \<Rightarrow> []
         | OutOfFuel \<Rightarrow> [])
      else [])"

text \<open>The triangle tests of a call of \<open>intersectBVHandTriangles\<close>.\<close>

definition tests ::
  "nat \<Rightarrow> ('f::{zero,one,plus,minus,times,inverse,ord}) intrinsics \<Rightarrow> 'f scene
     \<Rightarrow> (nat \<Rightarrow> bool) \<Rightarrow> nat \<Rightarrow> 'f float4 \<Rightarrow> 'f float4 \<Rightarrow> 'f Vec3f \<Rightarrow> bool
     \<Rightarrow> (int \<times> 'f trav) list" where
  "tests fuel I S lanes ballots0 orig4 dir4 trinormal0 anyHit =
     travTests fuel I S lanes (fetchRay I orig4 dir4) anyHit (startState dir4 trinormal0 ballots0)"

text \<open>A test fails when the triangle does not pass against the interval of that moment.\<close>

definition fails ::
  "('f::{zero,one,plus,minus,times,inverse,ord}) scene \<Rightarrow> 'f raylocals \<Rightarrow> int \<times> 'f trav \<Rightarrow> bool" where
  "fails S r e \<longleftrightarrow> woopTest S r (fst e) (hitT (snd e)) = None"

text \<open>
  The probing of the subsurface branch writes, of the variables of the kernel, only the state
  of the generator, the two outputs of the traversal and the count of the votes.
\<close>

definition probed :: "('f, 'g) frame \<Rightarrow> ('f, 'g) frame \<Rightarrow> bool" where
  "probed k k' \<longleftrightarrow>
     k' = k\<lparr>rdState := rdState k', hitTriAddr := hitTriAddr k', hitDistance := hitDistance k',
            votes := votes k'\<rparr>"

text \<open>The first \<open>n\<close> attempts of the loop of the attempts, one after the other.\<close>

fun attempts ::
  "nat \<Rightarrow> nat \<Rightarrow> ('f::{zero,one,plus,minus,times,inverse,ord,abs}) intrinsics \<Rightarrow> ('f, 'g) device
     \<Rightarrow> 'f scene \<Rightarrow> (nat \<Rightarrow> bool) \<Rightarrow> 'f diffusion \<Rightarrow> ('f, 'g) frame \<Rightarrow> 'f probe
     \<Rightarrow> (('f, 'g) frame \<times> 'f probe) result" where
  "attempts 0 fuel I D S lanes de k pr = Result (k, pr)"
| "attempts (Suc n) fuel I D S lanes de k pr =
     rbind (probeAttempt fuel I D S lanes de k pr)
       (\<lambda>(k1, pr1). attempts n fuel I D S lanes de k1 pr1)"

section \<open>Properties of the traversal\<close>

lemma rbind_Result_iff:
  "rbind m f = Result b \<longleftrightarrow> (\<exists>a. m = Result a \<and> f a = Result b)"
  by (cases m) (simp_all add: rbind_def)

text \<open>Only the triangle loop writes the hit.\<close>

lemma pop_keeps:
  "pop s = Result s'
     \<Longrightarrow> hitT s' = hitT s \<and> hitIndex s' = hitIndex s \<and> trinormal s' = trinormal s"
  by (auto simp: pop_def split: list.splits)

lemma push_keeps:
  "push v s = Result s'
     \<Longrightarrow> hitT s' = hitT s \<and> hitIndex s' = hitIndex s \<and> trinormal s' = trinormal s"
  by (auto simp: push_def split: if_splits)

lemma nodeStep_keeps:
  assumes "nodeStep I S lanes r s = Result (s', brk)"
  shows "hitT s' = hitT s \<and> hitIndex s' = hitIndex s \<and> trinormal s' = trinormal s"
  using assms unfolding nodeStep_def Let_def rbind_Result_iff
  by (auto split: if_splits dest!: pop_keeps push_keeps)

lemma innerLoop_keeps:
  "innerLoop k I S lanes r s = Result s'
     \<Longrightarrow> hitT s' = hitT s \<and> hitIndex s' = hitIndex s \<and> trinormal s' = trinormal s"
proof (induction k arbitrary: s)
  case 0
  then show ?case by simp
next
  case (Suc k)
  show ?case
  proof (cases "nodeAddr s \<ge> 0 \<and> nodeAddr s \<noteq> EntrypointSentinel")
    case False
    with Suc.prems show ?thesis by auto
  next
    case True
    with Suc.prems obtain s1 brk where st: "nodeStep I S lanes r s = Result (s1, brk)"
      and rest: "(if brk then Result s1 else innerLoop k I S lanes r s1) = Result s'"
      by (auto split: result.splits prod.splits)
    from nodeStep_keeps[OF st] rest Suc.IH[of s1] show ?thesis
      by (auto split: if_splits)
  qed
qed

lemma nextLeaf_keeps:
  "nextLeaf s = Result s'
     \<Longrightarrow> hitT s' = hitT s \<and> hitIndex s' = hitIndex s \<and> trinormal s' = trinormal s"
  by (auto simp: nextLeaf_def Let_def split: if_splits dest!: pop_keeps)

lemma woopTest_Some:
  "woopTest S r a hT = Some (t, v11, v22) \<Longrightarrow> tmin r < t \<and> t < hT"
  unfolding woopTest_def Let_def by (auto split: if_splits)


lemma triLoop_step:
  assumes "triLoop (Suc k) I S r anyHit a s = Result s'"
    and "float_as_int I (f4x (triWoopTexture S a)) mod 2 ^ 32 \<noteq> 0x80000000"
    and "triBody S r anyHit a s = (s1, brk)"
  shows "(brk \<and> s' = s1)
         \<or> (\<not> brk \<and> a + 3 \<le> INT_MAX \<and> triLoop k I S r anyHit (a + 3) s1 = Result s')"
  using assms by (auto split: if_splits)

lemma leafLoop_step:
  assumes "leafLoop (Suc k) I S r anyHit s = Result s'" and "leafAddr s < 0"
  obtains s1 s2 where "triLoop k I S r anyHit (- leafAddr s - 1) s = Result s1"
    and "nextLeaf s1 = Result s2" and "leafLoop k I S r anyHit s2 = Result s'"
  using assms by (auto split: result.splits)

lemma traversal_step:
  assumes "traversal (Suc k) I S lanes r anyHit s = Result s'"
    and "nodeAddr s \<noteq> EntrypointSentinel"
  obtains s1 s2 where "innerLoop k I S lanes r s = Result s1"
    and "leafLoop k I S r anyHit s1 = Result s2"
    and "traversal k I S lanes r anyHit s2 = Result s'"
  using assms by (auto split: result.splits)

lemma hitInv_cong:
  "hitT s' = hitT s \<and> hitIndex s' = hitIndex s \<and> trinormal s' = trinormal s
     \<Longrightarrow> hitInv lo hi s \<Longrightarrow> hitInv lo hi s'"
  by (simp add: hitInv_def)

lemma triBody_hitInv:
  fixes s :: "('f::{zero,one,plus,minus,times,inverse,ord}) trav"
  assumes tr: "\<forall>a b c :: 'f. a < b \<longrightarrow> b < c \<longrightarrow> a < c"
    and inv: "hitInv (tmin r) hi s"
    and st: "triBody S r anyHit a s = (s', brk)"
  shows "hitInv (tmin r) hi s'"
proof (cases "woopTest S r a (hitT s)")
  case None
  with st inv show ?thesis by (simp add: triBody_def)
next
  case (Some p)
  obtain t v11 v22 where p: "p = (t, v11, v22)" by (cases p)
  from woopTest_Some[OF Some[unfolded p]] have lo: "tmin r < t" and up: "t < hitT s" by auto
  from inv up tr have "t < hi" unfolding hitInv_def by blast
  moreover from st Some p have "hitT s' = t"
    by (auto simp: triBody_def Let_def split: if_splits)
  ultimately show ?thesis using lo by (simp add: hitInv_def)
qed

lemma triLoop_hitInv:
  fixes s :: "('f::{zero,one,plus,minus,times,inverse,ord}) trav"
  assumes tr: "\<forall>a b c :: 'f. a < b \<longrightarrow> b < c \<longrightarrow> a < c"
  shows "hitInv (tmin r) hi s \<Longrightarrow> triLoop k I S r anyHit a s = Result s'
           \<Longrightarrow> hitInv (tmin r) hi s'"
proof (induction k arbitrary: a s)
  case 0
  then show ?case by simp
next
  case (Suc k)
  show ?case
  proof (cases "float_as_int I (f4x (triWoopTexture S a)) mod 2 ^ 32 = 0x80000000")
    case True
    with Suc.prems show ?thesis by simp
  next
    case False
    obtain s1 brk where b: "triBody S r anyHit a s = (s1, brk)"
      by (cases "triBody S r anyHit a s")
    have i1: "hitInv (tmin r) hi s1" using triBody_hitInv[OF tr Suc.prems(1) b] .
    from triLoop_step[OF Suc.prems(2) False b] show ?thesis
      using i1 Suc.IH[OF i1] by auto
  qed
qed

lemma leafLoop_hitInv:
  fixes s :: "('f::{zero,one,plus,minus,times,inverse,ord}) trav"
  assumes tr: "\<forall>a b c :: 'f. a < b \<longrightarrow> b < c \<longrightarrow> a < c"
  shows "hitInv (tmin r) hi s \<Longrightarrow> leafLoop k I S r anyHit s = Result s'
           \<Longrightarrow> hitInv (tmin r) hi s'"
proof (induction k arbitrary: s)
  case 0
  then show ?case by simp
next
  case (Suc k)
  show ?case
  proof (cases "leafAddr s < 0")
    case False
    with Suc.prems show ?thesis by simp
  next
    case True
    from leafLoop_step[OF Suc.prems(2) True] obtain s1 s2 where
      a: "triLoop k I S r anyHit (- leafAddr s - 1) s = Result s1"
      and b: "nextLeaf s1 = Result s2"
      and c: "leafLoop k I S r anyHit s2 = Result s'"
      by blast
    have "hitInv (tmin r) hi s1" using triLoop_hitInv[OF tr Suc.prems(1) a] .
    then have "hitInv (tmin r) hi s2" using hitInv_cong[OF nextLeaf_keeps[OF b]] by blast
    then show ?thesis using Suc.IH c by blast
  qed
qed

lemma traversal_hitInv:
  fixes s :: "('f::{zero,one,plus,minus,times,inverse,ord}) trav"
  assumes tr: "\<forall>a b c :: 'f. a < b \<longrightarrow> b < c \<longrightarrow> a < c"
  shows "hitInv (tmin r) hi s \<Longrightarrow> traversal k I S lanes r anyHit s = Result s'
           \<Longrightarrow> hitInv (tmin r) hi s'"
proof (induction k arbitrary: s)
  case 0
  then show ?case by simp
next
  case (Suc k)
  show ?case
  proof (cases "nodeAddr s \<noteq> EntrypointSentinel")
    case False
    with Suc.prems show ?thesis by simp
  next
    case True
    from traversal_step[OF Suc.prems(2) True] obtain s1 s2 where
      a: "innerLoop k I S lanes r s = Result s1"
      and b: "leafLoop k I S r anyHit s1 = Result s2"
      and c: "traversal k I S lanes r anyHit s2 = Result s'"
      by blast
    have "hitInv (tmin r) hi s1" using hitInv_cong[OF innerLoop_keeps[OF a] Suc.prems(1)] .
    then have "hitInv (tmin r) hi s2" using leafLoop_hitInv[OF tr _ b] by blast
    then show ?thesis using Suc.IH c by blast
  qed
qed







text \<open>
  C1.  A nearest-hit call (\<open>anyHit\<close> false) that returns a hit (\<open>hitTriIdx\<close> is not \<open>-1\<close>)
  returns a distance strictly inside the range of the ray: \<open>t_min\<close>, the \<open>w\<close> of the
  origin, is below \<open>hitdistance\<close>, and \<open>hitdistance\<close> is below \<open>t_max\<close>, the \<open>w\<close> of the
  direction.  The only fact of the arithmetic used is that \<open><\<close> on floats is transitive.
\<close>

theorem nearest_hit_distance_in_ray_range:
  fixes orig4 dir4 :: "('f::{zero,one,plus,minus,times,inverse,ord}) float4"
  assumes tr: "\<forall>a b c :: 'f. a < b \<longrightarrow> b < c \<longrightarrow> a < c"
    and run: "intersectBVHandTriangles fuel I S lanes b0 orig4 dir4 n0 False
                = Result (hitTriIdx, hitdistance, n1, b1)"
    and hit: "hitTriIdx \<noteq> - 1"
  shows "f4w orig4 < hitdistance \<and> hitdistance < f4w dir4"
proof -
  let ?r = "fetchRay I orig4 dir4"
  have tm: "tmin ?r = f4w orig4" by (simp add: fetchRay_def Let_def)
  from run obtain s
    where t: "traversal fuel I S lanes ?r False (startState dir4 n0 b0) = Result s"
      and out: "hitIndex s = hitTriIdx" "hitT s = hitdistance"
    unfolding intersectBVHandTriangles_def rbind_Result_iff by auto
  have "hitInv (tmin ?r) (f4w dir4) (startState dir4 n0 b0)"
    by (simp add: hitInv_def startState_def)
  from traversal_hitInv[OF tr this t] hit out tm show ?thesis by (simp add: hitInv_def)
qed

section \<open>The run as a whole\<close>

















text \<open>While the tests fail the state of the loop stays as it is.\<close>

lemma triTests_fail:
  "\<forall>e\<in>set (triTests k I S r anyHit a0 s0). fails S r e
     \<Longrightarrow> triLoop k I S r anyHit a0 s0 = Result s'
     \<Longrightarrow> s' = s0 \<and> (\<forall>e\<in>set (triTests k I S r anyHit a0 s0). snd e = s0)"
proof (induction k arbitrary: a0)
  case 0
  then show ?case by simp
next
  case (Suc k)
  show ?case
  proof (cases "float_as_int I (f4x (triWoopTexture S a0)) mod 2 ^ 32 = 0x80000000")
    case True
    with Suc.prems show ?thesis by simp
  next
    case False
    with Suc.prems(1) have "woopTest S r a0 (hitT s0) = None" by (simp add: fails_def)
    then have b: "triBody S r anyHit a0 s0 = (s0, False)" by (simp add: triBody_def)
    from triLoop_step[OF Suc.prems(2) False b]
    have le: "a0 + 3 \<le> INT_MAX" and rec: "triLoop k I S r anyHit (a0 + 3) s0 = Result s'"
      by auto
    from Suc.prems(1) False b le
    have "\<forall>e\<in>set (triTests k I S r anyHit (a0 + 3) s0). fails S r e" by simp
    from Suc.IH[OF this rec] False b le show ?thesis by simp
  qed
qed



lemma leafTests_fail:
  "\<forall>e\<in>set (leafTests k I S r anyHit s0). fails S r e
     \<Longrightarrow> leafLoop k I S r anyHit s0 = Result s'
     \<Longrightarrow> hitT s' = hitT s0 \<and> hitIndex s' = hitIndex s0 \<and> trinormal s' = trinormal s0
         \<and> (\<forall>e\<in>set (leafTests k I S r anyHit s0). hitT (snd e) = hitT s0)"
proof (induction k arbitrary: s0)
  case 0
  then show ?case by simp
next
  case (Suc k)
  show ?case
  proof (cases "leafAddr s0 < 0")
    case False
    with Suc.prems show ?thesis by simp
  next
    case True
    from leafLoop_step[OF Suc.prems(2) True] obtain s1 s2 where
      a: "triLoop k I S r anyHit (- leafAddr s0 - 1) s0 = Result s1"
      and b: "nextLeaf s1 = Result s2"
      and c: "leafLoop k I S r anyHit s2 = Result s'"
      by blast
    from Suc.prems(1) True a b
    have f1: "\<forall>e\<in>set (triTests k I S r anyHit (- leafAddr s0 - 1) s0). fails S r e"
      and f2: "\<forall>e\<in>set (leafTests k I S r anyHit s2). fails S r e" by simp_all
    from triTests_fail[OF f1 a]
    have s1: "s1 = s0"
      and t1: "\<forall>e\<in>set (triTests k I S r anyHit (- leafAddr s0 - 1) s0). snd e = s0" by simp_all
    from nextLeaf_keeps[OF b] s1
    have k2: "hitT s2 = hitT s0" "hitIndex s2 = hitIndex s0" "trinormal s2 = trinormal s0"
      by simp_all
    from Suc.IH[OF f2 c] k2 t1 True a b show ?thesis by auto
  qed
qed

lemma travTests_fail:
  "\<forall>e\<in>set (travTests k I S lanes r anyHit s0). fails S r e
     \<Longrightarrow> traversal k I S lanes r anyHit s0 = Result s'
     \<Longrightarrow> hitT s' = hitT s0 \<and> hitIndex s' = hitIndex s0 \<and> trinormal s' = trinormal s0
         \<and> (\<forall>e\<in>set (travTests k I S lanes r anyHit s0). hitT (snd e) = hitT s0)"
proof (induction k arbitrary: s0)
  case 0
  then show ?case by simp
next
  case (Suc k)
  show ?case
  proof (cases "nodeAddr s0 \<noteq> EntrypointSentinel")
    case False
    with Suc.prems show ?thesis by simp
  next
    case True
    from traversal_step[OF Suc.prems(2) True] obtain s1 s2 where
      a: "innerLoop k I S lanes r s0 = Result s1"
      and b: "leafLoop k I S r anyHit s1 = Result s2"
      and c: "traversal k I S lanes r anyHit s2 = Result s'"
      by blast
    from Suc.prems(1) True a b
    have f1: "\<forall>e\<in>set (leafTests k I S r anyHit s1). fails S r e"
      and f2: "\<forall>e\<in>set (travTests k I S lanes r anyHit s2). fails S r e" by simp_all
    note k1 = innerLoop_keeps[OF a]
    from leafTests_fail[OF f1 b] k1
    have k2: "hitT s2 = hitT s0" "hitIndex s2 = hitIndex s0" "trinormal s2 = trinormal s0"
      and t1: "\<forall>e\<in>set (leafTests k I S r anyHit s1). hitT (snd e) = hitT s0" by simp_all
    from Suc.IH[OF f2 c] k2 t1 True a b show ?thesis by auto
  qed
qed





text \<open>
  C9.  When no triangle that the call tests passes the tests, that is every test of the run
  fails, the call returns \<open>hitTriIdx = -1\<close> and \<open>hitdistance\<close> equal to the \<open>t_max\<close> it was
  given, the \<open>w\<close> of the direction, and leaves the normal as the caller passed it; and every
  test of the run was against the whole range of the ray.
\<close>

theorem no_tested_triangle_passes_returns_sentinel_and_tmax:
  assumes run: "intersectBVHandTriangles fuel I S lanes b0 orig4 dir4 n0 anyHit
                = Result (hitTriIdx, hitdistance, n1, b1)"
    and no: "\<forall>e\<in>set (tests fuel I S lanes b0 orig4 dir4 n0 anyHit).
               fails S (fetchRay I orig4 dir4) e"
  shows "hitTriIdx = - 1 \<and> hitdistance = f4w dir4 \<and> n1 = n0
         \<and> (\<forall>e\<in>set (tests fuel I S lanes b0 orig4 dir4 n0 anyHit). hitT (snd e) = f4w dir4)"
proof -
  let ?r = "fetchRay I orig4 dir4"
  from run obtain s
    where t: "traversal fuel I S lanes ?r anyHit (startState dir4 n0 b0) = Result s"
      and out: "hitIndex s = hitTriIdx" "hitT s = hitdistance" "trinormal s = n1"
    unfolding intersectBVHandTriangles_def rbind_Result_iff by auto
  from travTests_fail[OF no[unfolded tests_def] t] out show ?thesis
    by (simp add: startState_def tests_def)
qed

section \<open>Runs on the concrete inputs\<close>

lemmas f32_eval = plus_f32_def times_f32_def minus_f32_def divide_f32_def uminus_f32_def
  less_f32_def less_eq_f32_def zero_f32_def one_f32_def abs_f32_def
  decode_def unpack_def encode_def pack_def ilog2_def roundEven_def tiesEven_def signBit_def
  pow2_def signed_def ofReal_def finf_def qNaN_def
  bl1_def bl2_def bl4_def bl8_def bl16_def bl32_def bl64_def bl128_def bl256_def
  exp2f32_def copysignf32_def fminf32_def fmaxf32_def float_as_int32_def float2int32_def

lemmas span_eval = spanBeginKepler_def spanEndKepler_def fmin_fmin_def fmin_fmax_def
  fmax_fmin_def fmax_fmax_def min_min_def min_max_def max_min_def max_max_def

lemmas sel_eval = scene1bits_def texOf_def hitLocals_def missLocals_def edgeLocals_def idle_def
  I32_def
  scene.simps raylocals.simps trav.simps intrinsics.simps float4.sel

lemma f32_less_trans: "\<forall>a b c :: f32. a < b \<longrightarrow> b < c \<longrightarrow> a < c"
proof (intro allI impI)
  fix a b c :: f32
  assume "a < b" "b < c"
  then show "a < c"
    unfolding less_f32_def
    by (cases "decode a"; cases "decode b"; cases "decode c")
       (auto simp: signed_def split: if_splits)
qed

lemma scene1_eval: "scene1 = scene1bits"
  unfolding scene1_def scene1bits_def row_def
  by (simp add: f32_eval)

lemma ray_consts: "RAY_MIN I32 = Bits 925353388" "RAY_MAX I32 = Bits 1621981420"
  by (simp_all add: RAY_MIN_def RAY_MAX_def I32_def f32_eval)

lemma ray_w: "f4w hitOrig = Bits 925353388" "f4w missOrig = Bits 925353388"
  "f4w upDir = Bits 1621981420"
  by (simp_all add: hitOrig_def missOrig_def upDir_def ray_consts)

lemma hitLocals_eval: "fetchRay I32 hitOrig upDir = hitLocals"
  apply (simp only: fetchRay_def Let_def hitOrig_def upDir_def hitLocals_def ray_consts)
  apply (simp only: sel_eval)
  apply (simp add: f32_eval split del: if_split)
  done

lemma missLocals_eval: "fetchRay I32 missOrig upDir = missLocals"
  apply (simp only: fetchRay_def Let_def missOrig_def upDir_def missLocals_def ray_consts)
  apply (simp only: sel_eval)
  apply (simp add: f32_eval split del: if_split)
  done

lemma startState_upDir:
  "startState upDir n0 b =
     \<lparr> stack = [EntrypointSentinel], leafAddr = 0, nodeAddr = 0, hitIndex = - 1,
       hitT = Bits 1621981420, trinormal = n0, ballots = b \<rparr>"
  by (simp add: startState_def ray_w)

lemma nodeStep_hit:
  "nodeStep I32 scene1bits idle hitLocals
     \<lparr> stack = [EntrypointSentinel], leafAddr = 0, nodeAddr = 0, hitIndex = - 1,
       hitT = Bits 1621981420, trinormal = n0, ballots = b \<rparr>
   = Result (\<lparr> stack = [], leafAddr = - 1, nodeAddr = EntrypointSentinel, hitIndex = - 1,
               hitT = Bits 1621981420, trinormal = n0, ballots = Suc b \<rparr>, True)"
  apply (simp only: nodeStep_def Let_def)
  apply (simp only: sel_eval)
  apply (simp add: f32_eval span_eval rbind_def pop_def push_def STACK_SIZE_def
      EntrypointSentinel_def split del: if_split)
  done

lemma nodeStep_miss:
  "nodeStep I32 scene1bits idle missLocals
     \<lparr> stack = [EntrypointSentinel], leafAddr = 0, nodeAddr = 0, hitIndex = - 1,
       hitT = Bits 1621981420, trinormal = n0, ballots = b \<rparr>
   = Result (\<lparr> stack = [], leafAddr = 0, nodeAddr = EntrypointSentinel, hitIndex = - 1,
               hitT = Bits 1621981420, trinormal = n0, ballots = Suc b \<rparr>, False)"
  apply (simp only: nodeStep_def Let_def)
  apply (simp only: sel_eval)
  apply (simp add: f32_eval span_eval rbind_def pop_def push_def STACK_SIZE_def
      EntrypointSentinel_def split del: if_split)
  done

lemma woop_hit:
  "woopTest scene1bits hitLocals 0 (Bits 1621981420)
     = Some (Bits 1065353216, make_float4 (Bits 1065353216) (Bits 0) (Bits 0) (Bits 0),
             make_float4 (Bits 0) (Bits 1065353216) (Bits 0) (Bits 0))"
  apply (simp only: woopTest_def Let_def)
  apply (simp only: sel_eval)
  apply (simp add: f32_eval split del: if_split)
  done

lemma marker_eval:
  "float_as_int I32 (f4x (triWoopTexture scene1bits 0)) mod 2 ^ 32 \<noteq> 0x80000000"
  "float_as_int I32 (f4x (triWoopTexture scene1bits 3)) mod 2 ^ 32 = 0x80000000"
  by (simp_all add: sel_eval float_as_int32_def)

lemma sentinel_simps:
  "EntrypointSentinel \<noteq> 0" "0 \<le> EntrypointSentinel" "\<not> EntrypointSentinel < 0"
  "EntrypointSentinel \<noteq> - 1"
  by (simp_all add: EntrypointSentinel_def)

lemma cross_eval:
  "cross (Vec3f (Bits 1065353216) (Bits 0) (Bits 0)) (Vec3f (Bits 0) (Bits 1065353216) (Bits 0))
     = Vec3f (Bits 0) (Bits 0) (Bits 1065353216)"
  by (simp add: cross_def f32_eval)

lemma triangle_nearest:
  "triLoop (Suc (Suc 0)) I32 scene1bits hitLocals False 0
     \<lparr> stack = [], leafAddr = - 1, nodeAddr = EntrypointSentinel, hitIndex = - 1,
       hitT = Bits 1621981420, trinormal = n0, ballots = b \<rparr>
   = Result \<lparr> stack = [], leafAddr = - 1, nodeAddr = EntrypointSentinel, hitIndex = 0,
              hitT = Bits 1065353216, trinormal = Vec3f (Bits 0) (Bits 0) (Bits 1065353216),
              ballots = b \<rparr>"
  using marker_eval
  by (simp add: triBody_def woop_hit cross_eval INT_MAX_def split del: if_split)

lemma triangle_any:
  "triLoop (Suc (Suc 0)) I32 scene1bits hitLocals True 0
     \<lparr> stack = [], leafAddr = - 1, nodeAddr = EntrypointSentinel, hitIndex = - 1,
       hitT = Bits 1621981420, trinormal = n0, ballots = b \<rparr>
   = Result \<lparr> stack = [], leafAddr = - 1, nodeAddr = EntrypointSentinel, hitIndex = 0,
              hitT = Bits 1065353216, trinormal = n0, ballots = b \<rparr>"
  using marker_eval
  by (simp add: triBody_def woop_hit split del: if_split)

text \<open>The ray \<open>hitOrig\<close> meets the triangle at distance 1: in nearest-hit and in any-hit mode.\<close>

lemma run_hit_nearest:
  "intersectBVHandTriangles (Suc (Suc (Suc (Suc 0)))) I32 scene1 idle b hitOrig upDir n0 False
     = Result (0, Bits 1065353216, Vec3f (Bits 0) (Bits 0) (Bits 1065353216), Suc b)"
  by (simp add: intersectBVHandTriangles_def hitLocals_eval scene1_eval startState_upDir
      nodeStep_hit triangle_nearest nextLeaf_def rbind_def sentinel_simps
      del: triLoop.simps split del: if_split)

lemma run_hit_any:
  "intersectBVHandTriangles (Suc (Suc (Suc (Suc 0)))) I32 scene1 idle b hitOrig upDir n0 True
     = Result (0, Bits 1065353216, n0, Suc b)"
  by (simp add: intersectBVHandTriangles_def hitLocals_eval scene1_eval startState_upDir
      nodeStep_hit triangle_any nextLeaf_def rbind_def sentinel_simps
      del: triLoop.simps split del: if_split)

text \<open>The ray \<open>missOrig\<close> meets no box: the call returns no hit, in either mode.\<close>

lemma run_miss:
  "intersectBVHandTriangles (Suc (Suc (Suc (Suc 0)))) I32 scene1 idle b missOrig upDir n0 anyHit
     = Result (- 1, Bits 1621981420, n0, Suc b)"
  by (simp add: intersectBVHandTriangles_def missLocals_eval scene1_eval startState_upDir
      nodeStep_miss rbind_def sentinel_simps split del: if_split)

text \<open>
  The ray \<open>edgeOrig\<close> enters the box of the leaf; the triangle is tested and fails (with
  \<open>u = v = 3/4\<close>); the call returns no hit, in either mode.
\<close>

lemma edgeLocals_eval: "fetchRay I32 edgeOrig upDir = edgeLocals"
  apply (simp only: fetchRay_def Let_def edgeOrig_def upDir_def edgeLocals_def ray_consts)
  apply (simp only: sel_eval)
  apply (simp add: f32_eval split del: if_split)
  done

lemma nodeStep_edge:
  "nodeStep I32 scene1bits idle edgeLocals
     \<lparr> stack = [EntrypointSentinel], leafAddr = 0, nodeAddr = 0, hitIndex = - 1,
       hitT = Bits 1621981420, trinormal = n0, ballots = b \<rparr>
   = Result (\<lparr> stack = [], leafAddr = - 1, nodeAddr = EntrypointSentinel, hitIndex = - 1,
               hitT = Bits 1621981420, trinormal = n0, ballots = Suc b \<rparr>, True)"
  apply (simp only: nodeStep_def Let_def)
  apply (simp only: sel_eval)
  apply (simp add: f32_eval span_eval rbind_def pop_def push_def STACK_SIZE_def
      EntrypointSentinel_def split del: if_split)
  done

lemma woop_edge: "woopTest scene1bits edgeLocals 0 (Bits 1621981420) = None"
  apply (simp only: woopTest_def Let_def)
  apply (simp only: sel_eval)
  apply (simp add: f32_eval split del: if_split)
  done

lemma triangle_edge:
  "triLoop (Suc (Suc 0)) I32 scene1bits edgeLocals anyHit 0
     \<lparr> stack = [], leafAddr = - 1, nodeAddr = EntrypointSentinel, hitIndex = - 1,
       hitT = Bits 1621981420, trinormal = n0, ballots = b \<rparr>
   = Result \<lparr> stack = [], leafAddr = - 1, nodeAddr = EntrypointSentinel, hitIndex = - 1,
              hitT = Bits 1621981420, trinormal = n0, ballots = b \<rparr>"
  using marker_eval
  by (simp add: triBody_def woop_edge INT_MAX_def split del: if_split)

lemma run_edge:
  "intersectBVHandTriangles (Suc (Suc (Suc (Suc 0)))) I32 scene1 idle b edgeOrig upDir n0 anyHit
     = Result (- 1, Bits 1621981420, n0, Suc b)"
  by (simp add: intersectBVHandTriangles_def edgeLocals_eval scene1_eval startState_upDir
      nodeStep_edge triangle_edge nextLeaf_def rbind_def sentinel_simps
      del: triLoop.simps split del: if_split)

text \<open>The tests of the runs on \<open>edgeOrig\<close> and on \<open>hitOrig\<close>: the triangle at address 0, once.\<close>

lemma tests_edge:
  "tests (Suc (Suc (Suc (Suc 0)))) I32 scene1 idle b edgeOrig upDir n0 anyHit
   = [(0, \<lparr> stack = [], leafAddr = - 1, nodeAddr = EntrypointSentinel, hitIndex = - 1,
             hitT = Bits 1621981420, trinormal = n0, ballots = Suc b \<rparr>)]"
  using marker_eval
  by (simp add: tests_def edgeLocals_eval scene1_eval startState_upDir
      nodeStep_edge triangle_edge triBody_def woop_edge INT_MAX_def nextLeaf_def rbind_def
      sentinel_simps del: triLoop.simps split del: if_split)


text \<open>Witness of C1: the ray \<open>hitOrig\<close> in \<open>scene1\<close>, nearest-hit mode.\<close>

theorem nearest_hit_distance_in_ray_range_witness:
  "intersectBVHandTriangles (Suc (Suc (Suc (Suc 0)))) I32 scene1 idle 0 hitOrig upDir
     (Vec3f 0 0 0) False
     = Result (0, Bits 1065353216, Vec3f (Bits 0) (Bits 0) (Bits 1065353216), Suc 0)
   \<and> (0 :: int) \<noteq> - 1
   \<and> f4w hitOrig < Bits 1065353216 \<and> Bits 1065353216 < f4w upDir"
proof -
  have run: "intersectBVHandTriangles (Suc (Suc (Suc (Suc 0)))) I32 scene1 idle 0 hitOrig upDir
               (Vec3f 0 0 0) False
             = Result (0, Bits 1065353216, Vec3f (Bits 0) (Bits 0) (Bits 1065353216), Suc 0)"
    by (rule run_hit_nearest)
  have ne: "(0 :: int) \<noteq> - 1" by simp
  from nearest_hit_distance_in_ray_range[OF f32_less_trans run ne] run ne
  show ?thesis by blast
qed


text \<open>Witness of C9: the ray \<open>edgeOrig\<close>, whose run tests the triangle.\<close>

theorem no_tested_triangle_passes_returns_sentinel_and_tmax_witness:
  "intersectBVHandTriangles (Suc (Suc (Suc (Suc 0)))) I32 scene1 idle 0 edgeOrig upDir
     (Vec3f 0 0 0) False = Result (- 1, Bits 1621981420, Vec3f 0 0 0, Suc 0)
   \<and> tests (Suc (Suc (Suc (Suc 0)))) I32 scene1 idle 0 edgeOrig upDir (Vec3f 0 0 0) False
       = [(0, \<lparr> stack = [], leafAddr = - 1, nodeAddr = EntrypointSentinel, hitIndex = - 1,
                 hitT = Bits 1621981420, trinormal = Vec3f 0 0 0, ballots = Suc 0 \<rparr>)]
   \<and> woopTest scene1 (fetchRay I32 edgeOrig upDir) 0 (Bits 1621981420) = None
   \<and> (- 1 :: int) = - 1 \<and> Bits 1621981420 = f4w upDir"
proof -
  let ?f = "Suc (Suc (Suc (Suc 0)))"
  have run: "intersectBVHandTriangles ?f I32 scene1 idle 0 edgeOrig upDir (Vec3f 0 0 0) False
               = Result (- 1, Bits 1621981420, Vec3f 0 0 0, Suc 0)"
    by (rule run_edge)
  have w: "woopTest scene1 (fetchRay I32 edgeOrig upDir) 0 (Bits 1621981420) = None"
    by (simp add: scene1_eval edgeLocals_eval woop_edge)
  have no: "\<forall>e\<in>set (tests ?f I32 scene1 idle 0 edgeOrig upDir (Vec3f 0 0 0) False).
              fails scene1 (fetchRay I32 edgeOrig upDir) e"
    by (simp add: tests_edge fails_def w)
  from no_tested_triangle_passes_returns_sentinel_and_tmax[OF run no]
  have "(- 1 :: int) = - 1" "Bits 1621981420 = f4w upDir" by simp_all
  with run tests_edge[of 0 "Vec3f 0 0 0" False] w show ?thesis by blast
qed

section \<open>The material branches of \<open>renderKernel\<close>\<close>

lemma probed_refl: "probed k k"
  by (simp add: probed_def)

lemma probed_trans: "probed k k1 \<Longrightarrow> probed k1 k2 \<Longrightarrow> probed k k2"
  unfolding probed_def
  by (cases k; cases k1; cases k2) simp

lemma probed_fields:
  assumes "probed k k'"
  shows "mask k' = mask k" "mat k' = mat k" "beta k' = beta k" "hitpoint k' = hitpoint k"
    "nl k' = nl k" "medium k' = medium k" "bssrdfMatId k' = bssrdfMatId k"
    "nextdir k' = nextdir k" "accucolor k' = accucolor k" "surfN k' = surfN k"
    "raydir k' = raydir k" "rayorig k' = rayorig k"
  using assms unfolding probed_def by (cases k; cases k'; simp)+

lemma rd_probed: "rd D k = (r, k') \<Longrightarrow> probed k k'"
  by (auto simp: rd_def probed_def split: prod.splits)

lemma rd_fields:
  assumes "rd D k = (r, k')"
  shows "mask k' = mask k" "mat k' = mat k" "beta k' = beta k" "hitpoint k' = hitpoint k"
    "nl k' = nl k" "medium k' = medium k" "bssrdfMatId k' = bssrdfMatId k"
    "nextdir k' = nextdir k" "accucolor k' = accucolor k" "surfN k' = surfN k"
    "raydir k' = raydir k" "rayorig k' = rayorig k"
  using probed_fields[OF rd_probed[OF assms]] by simp_all

lemma toggleMedium_id: "toggleMedium stay k = k"
  by (simp add: toggleMedium_def airMedium_def objMedium_def)

lemma directLight_fields:
  "mask (directLight I D k) = mask k" "mat (directLight I D k) = mat k"
  "medium (directLight I D k) = medium k" "rdState (directLight I D k) = rdState k"
  "raydir (directLight I D k) = raydir k" "nl (directLight I D k) = nl k"
  by (simp_all add: directLight_def Let_def)

text \<open>
  C3.  In the branch \<open>MAT_REFL\<close> with \<open>alphax == 0.0f\<close> the switch goes on with the frame of
  \<open>shadeRefl\<close>, whose \<open>nextdir\<close> is the normalised \<open>raydir - n * dot(n, raydir) * 2.0f\<close> and
  whose \<open>mask\<close> is the old \<open>mask\<close> times \<open>ks * objcol\<close>, component by component, and nothing
  else.
\<close>

theorem mirror_reflects_about_normal_and_scales_mask_by_ks_objcol:
  assumes "refltype (mat k) = MAT_REFL" and "fequal I (alphax (mat k)) 0"
  shows "shade fuel I D S lanes junk into k = Result (Break (shadeRefl I D k))
         \<and> nextdir (shadeRefl I D k)
             = normalize D (vsub (raydir k)
                 (vscale (vscale (surfN k) (dot (surfN k) (raydir k))) (flit I 2)))
         \<and> mask (shadeRefl I D k)
             = Vec3f (v3x (mask k) * (ks (mat k) * v3x (objcol (mat k))))
                     (v3y (mask k) * (ks (mat k) * v3y (objcol (mat k))))
                     (v3z (mask k) * (ks (mat k) * v3z (objcol (mat k))))"
  using assms by (simp add: shade_def shadeRefl_def nudge_def Let_def vmul_def scalev_def)

text \<open>The mask after the microfacet glass.\<close>

lemma glassSample_fields:
  assumes "glassSample I D into k = (out, k3)"
  shows "mask k3 = mask k" "mat k3 = mat k" "medium k3 = medium k"
  using assms
  by (auto simp: glassSample_def Let_def rd_def directLight_fields split: prod.splits)



section \<open>The subsurface branch and the medium\<close>

declare searchLoop.simps [simp del] probeLoop.simps [simp del] renderLoop.simps [simp del]

lemma rbind_OutOfFuel_iff:
  "rbind m f = OutOfFuel \<longleftrightarrow> m = OutOfFuel \<or> (\<exists>a. m = Result a \<and> f a = OutOfFuel)"
  by (cases m) (simp_all add: rbind_def)

lemma probeStep_probed:
  assumes "probeStep fuel I D S lanes k pr = Result ((k1, pr1), brk)"
  shows "probed k k1"
  using assms
  by (auto simp: probeStep_def rbind_Result_iff probed_def Let_def split: prod.splits)

lemma searchLoop_probed:
  "searchLoop fuel I D S lanes i k pr = Result (k1, pr1) \<Longrightarrow> probed k k1"
proof (induction fuel I D S lanes i k pr rule: searchLoop.induct)
  case (1 fuel I D S lanes i k pr)
  show ?case
  proof (cases "i < maxSurfaceHit")
    case False
    with "1.prems" show ?thesis by (simp add: searchLoop.simps probed_refl)
  next
    case True
    with "1.prems" obtain k2 pr2 brk where
      st: "probeStep fuel I D S lanes k pr = Result ((k2, pr2), brk)"
      by (subst (asm) searchLoop.simps) (auto split: result.splits)
    show ?thesis
    proof (cases brk)
      case True
      with st \<open>i < maxSurfaceHit\<close> "1.prems" have "k1 = k2"
        by (subst (asm) searchLoop.simps) simp
      with probeStep_probed[OF st] show ?thesis by simp
    next
      case False
      with st \<open>i < maxSurfaceHit\<close> "1.prems"
      have "searchLoop fuel I D S lanes (i + 1) k2 pr2 = Result (k1, pr1)"
        by (subst (asm) searchLoop.simps) simp
      from "1.IH"[OF \<open>i < maxSurfaceHit\<close> st refl refl False this] probeStep_probed[OF st]
      show ?thesis by (rule probed_trans[rotated])
    qed
  qed
qed

lemma probeAttempt_probed:
  assumes "probeAttempt fuel I D S lanes de k pr = Result (k1, pr1)"
  shows "probed k k1"
proof -
  obtain r1 ka where a: "rd D k = (r1, ka)" by (cases "rd D k")
  obtain r2 kb where b: "rd D ka = (r2, kb)" by (cases "rd D ka")
  obtain r3 kc where c: "rd D kb = (r3, kc)" by (cases "rd D kb")
  obtain r4 kd where d: "rd D kc = (r4, kd)" by (cases "rd D kc")
  obtain r5 ke where e: "rd D kd = (r5, ke)" by (cases "rd D kd")
  from assms a b c d e obtain pr0 where
    "searchLoop fuel I D S lanes 0 ke pr0 = Result (k1, pr1)"
    by (auto simp: probeAttempt_def split: prod.splits)
  from searchLoop_probed[OF this] have "probed ke k1" .
  with rd_probed[OF a] rd_probed[OF b] rd_probed[OF c] rd_probed[OF d] rd_probed[OF e]
  show ?thesis by (blast intro: probed_trans)
qed

lemma probeLoop_cases:
  assumes "probeLoop fuel I D S lanes de m k pr = Result out"
  shows "(\<not> (hitCount pr = 0 \<and> m > 0) \<and> out = (m, k, pr))
         \<or> (hitCount pr = 0 \<and> m > 0
            \<and> (\<exists>k1 pr1. probeAttempt fuel I D S lanes de k pr = Result (k1, pr1)
                  \<and> probeLoop fuel I D S lanes de (m - 1) k1 pr1 = Result out))"
  using assms
  by (subst (asm) probeLoop.simps) (auto split: result.splits if_splits)

lemma probeLoop_probed:
  "probeLoop fuel I D S lanes de m k pr = Result (m', k', pr') \<Longrightarrow> probed k k'"
proof (induction fuel I D S lanes de m k pr rule: probeLoop.induct)
  case (1 fuel I D S lanes de m k pr)
  from probeLoop_cases[OF "1.prems"] show ?case
  proof (elim disjE conjE exE)
    assume "(m', k', pr') = (m, k, pr)"
    then show ?thesis by (simp add: probed_refl)
  next
    fix k1 pr1
    assume c: "hitCount pr = 0" "0 < m"
      and a: "probeAttempt fuel I D S lanes de k pr = Result (k1, pr1)"
      and l: "probeLoop fuel I D S lanes de (m - 1) k1 pr1 = Result (m', k', pr')"
    from c have cc: "hitCount pr = 0 \<and> 0 < m" by simp
    from "1.IH"[OF cc a refl l] probeAttempt_probed[OF a]
    show ?thesis by (rule probed_trans[rotated])
  qed
qed

text \<open>The counter of the loop and the attempts made.\<close>

lemma probeLoop_counter:
  "probeLoop fuel I D S lanes de m k pr = Result (m', k', pr') \<Longrightarrow> 0 \<le> m
     \<Longrightarrow> 0 \<le> m' \<and> m' \<le> m
         \<and> attempts (nat (m - m')) fuel I D S lanes de k pr = Result (k', pr')
         \<and> (hitCount pr' = 0 \<longrightarrow> m' = 0)"
proof (induction fuel I D S lanes de m k pr rule: probeLoop.induct)
  case (1 fuel I D S lanes de m k pr)
  from probeLoop_cases[OF "1.prems"(1)] show ?case
  proof (elim disjE conjE exE)
    assume "\<not> (hitCount pr = 0 \<and> 0 < m)" "(m', k', pr') = (m, k, pr)"
    with "1.prems"(2) show ?thesis by auto
  next
    fix k1 pr1
    assume c: "hitCount pr = 0" "0 < m"
      and a: "probeAttempt fuel I D S lanes de k pr = Result (k1, pr1)"
      and l: "probeLoop fuel I D S lanes de (m - 1) k1 pr1 = Result (m', k', pr')"
    from c have cc: "hitCount pr = 0 \<and> 0 < m" by simp
    from c have "0 \<le> m - 1" by simp
    from "1.IH"[OF cc a refl l this]
    have ih: "0 \<le> m'" "m' \<le> m - 1"
      "attempts (nat (m - 1 - m')) fuel I D S lanes de k1 pr1 = Result (k', pr')"
      "hitCount pr' = 0 \<longrightarrow> m' = 0" by simp_all
    from ih(2) have "nat (m - m') = Suc (nat (m - 1 - m'))" by simp
    with a ih show ?thesis by (simp add: rbind_def)
  qed
qed

text \<open>The loop of the attempts does not return only when a traversal does not return.\<close>

lemma probeRecord_returns: "probeRecord I D S k pr \<noteq> OutOfFuel"
  by (simp add: probeRecord_def recordExit_def rbind_def Let_def split: result.splits)

lemma probeStep_fuel:
  assumes "probeStep fuel I D S lanes k pr = OutOfFuel"
  shows "\<exists>b orig4 dir4 n0. intersectBVHandTriangles fuel I S lanes b orig4 dir4 n0 False = OutOfFuel"
  using assms unfolding probeStep_def
  by (auto simp: rbind_OutOfFuel_iff probeRecord_returns Let_def split: prod.splits)

lemma searchLoop_fuel:
  "searchLoop fuel I D S lanes i k pr = OutOfFuel
     \<Longrightarrow> \<exists>b orig4 dir4 n0. intersectBVHandTriangles fuel I S lanes b orig4 dir4 n0 False = OutOfFuel"
proof (induction fuel I D S lanes i k pr rule: searchLoop.induct)
  case (1 fuel I D S lanes i k pr)
  show ?case
  proof (cases "probeStep fuel I D S lanes k pr")
    case OutOfFuel
    then show ?thesis by (rule probeStep_fuel)
  next
    case UB
    with "1.prems" show ?thesis
      by (subst (asm) searchLoop.simps) (simp split: if_splits)
  next
    case (Result x)
    obtain k2 pr2 brk where x: "x = ((k2, pr2), brk)" by (cases x) auto
    from "1.prems" Result x have c: "i < maxSurfaceHit" "\<not> brk"
      and l: "searchLoop fuel I D S lanes (i + 1) k2 pr2 = OutOfFuel"
      by (subst (asm) searchLoop.simps; simp split: if_splits)+
    from "1.IH"[OF c(1) Result[unfolded x] refl refl c(2) l] show ?thesis .
  qed
qed

lemma probeAttempt_fuel:
  assumes "probeAttempt fuel I D S lanes de k pr = OutOfFuel"
  shows "\<exists>b orig4 dir4 n0. intersectBVHandTriangles fuel I S lanes b orig4 dir4 n0 False = OutOfFuel"
  using assms unfolding probeAttempt_def
  by (auto split: prod.splits intro: searchLoop_fuel)

lemma probeLoop_fuel:
  "probeLoop fuel I D S lanes de m k pr = OutOfFuel
     \<Longrightarrow> \<exists>b orig4 dir4 n0. intersectBVHandTriangles fuel I S lanes b orig4 dir4 n0 False = OutOfFuel"
proof (induction fuel I D S lanes de m k pr rule: probeLoop.induct)
  case (1 fuel I D S lanes de m k pr)
  show ?case
  proof (cases "probeAttempt fuel I D S lanes de k pr")
    case OutOfFuel
    then show ?thesis by (rule probeAttempt_fuel)
  next
    case UB
    with "1.prems" show ?thesis
      by (subst (asm) probeLoop.simps) (simp split: if_splits)
  next
    case (Result x)
    obtain k1 pr1 where x: "x = (k1, pr1)" by (cases x)
    from "1.prems" Result x have c: "hitCount pr = 0 \<and> 0 < m"
      and l: "probeLoop fuel I D S lanes de (m - 1) k1 pr1 = OutOfFuel"
      by (subst (asm) probeLoop.simps; simp split: if_splits)+
    from "1.IH"[OF c Result[unfolded x] refl l] show ?thesis .
  qed
qed

text \<open>With \<open>maxSurfaceHit = 1\<close> the search along a probe ray is one step.\<close>

lemma searchLoop_once:
  "searchLoop fuel I D S lanes 0 k pr
   = rbind (probeStep fuel I D S lanes k pr) (\<lambda>((k1, pr1), brk). Result (k1, pr1))"
  apply (subst searchLoop.simps)
  apply (simp add: maxSurfaceHit_def rbind_def split: result.splits)
  apply (subst searchLoop.simps)
  apply (simp add: maxSurfaceHit_def)
  done

lemma probeRecord_records:
  assumes "probeRecord I D S k pr = Result (pr1, brk)"
    and "hitCount pr = 0" and "hitCount pr1 \<noteq> 0"
  shows "hitCount pr1 = 1 \<and> accepted I k pr (probeHit D S k pr)
         \<and> probeHitPoint pr1 0 = probeHitPointAny (probeHit D S k pr)
         \<and> probeHitPointNormal pr1 0 = smoothNormal (probeHit D S k pr)
         \<and> sampledRadius pr1 = sampledRadius pr \<and> probeRayDir pr1 = probeRayDir pr"
  using assms
  by (auto simp: probeRecord_def recordExit_def accepted_def rbind_Result_iff Let_def
        maxSurfaceHit_def split: if_splits)

lemma probeHit_fields:
  "realRadius (probeHit D S k pr) = vlength D (vsub (probeHitPointAny (probeHit D S k pr)) (hitpoint k))"
  "surfaceMat (probeHit D S k pr) = triMaterialTexture S (triIndicesTexture S (hitTriAddr k))"
  "normalDot (probeHit D S k pr) = abs (dot (smoothNormal (probeHit D S k pr)) (probeRayDir pr))"
  by (simp_all add: probeHit_def Let_def split: prod.splits)

lemma probeStep_records:
  assumes "probeStep fuel I D S lanes k pr = Result ((k1, pr1), brk)"
    and "hitCount pr = 0" and "hitCount pr1 \<noteq> 0"
  shows "hitCount pr1 = 1
         \<and> triMaterialTexture S (triIndicesTexture S (hitTriAddr k1)) = bssrdfMatId k
         \<and> vlength D (vsub (probeHitPoint pr1 0) (hitpoint k)) / sampledRadius pr < maxRatio I
         \<and> abs (dot (probeHitPointNormal pr1 0) (probeRayDir pr)) > minNormalDot I
         \<and> sampledRadius pr1 = sampledRadius pr \<and> probeRayDir pr1 = probeRayDir pr"
proof -
  from assms(1) obtain idx d nrm b where
    k1: "k1 = k\<lparr>hitTriAddr := idx, hitDistance := d, votes := b\<rparr>"
    and r: "probeRecord I D S k1 (pr\<lparr>probeNormal := nrm\<rparr>) = Result (pr1, brk)"
    by (auto simp: probeStep_def rbind_Result_iff Let_def split: prod.splits)
  from probeRecord_records[OF r] assms(2,3)
  have "hitCount pr1 = 1"
    and a: "accepted I k1 (pr\<lparr>probeNormal := nrm\<rparr>) (probeHit D S k1 (pr\<lparr>probeNormal := nrm\<rparr>))"
    and p: "probeHitPoint pr1 0 = probeHitPointAny (probeHit D S k1 (pr\<lparr>probeNormal := nrm\<rparr>))"
    and n: "probeHitPointNormal pr1 0 = smoothNormal (probeHit D S k1 (pr\<lparr>probeNormal := nrm\<rparr>))"
    and s: "sampledRadius pr1 = sampledRadius pr" "probeRayDir pr1 = probeRayDir pr"
    by simp_all
  from a have "triMaterialTexture S (triIndicesTexture S (hitTriAddr k1)) = bssrdfMatId k
     \<and> vlength D (vsub (probeHitPoint pr1 0) (hitpoint k)) / sampledRadius pr < maxRatio I
     \<and> abs (dot (probeHitPointNormal pr1 0) (probeRayDir pr)) > minNormalDot I"
    unfolding accepted_def probeHit_fields p[symmetric] n[symmetric]
    by (simp add: k1)
  with \<open>hitCount pr1 = 1\<close> s show ?thesis by simp
qed

lemma probeAttempt_records:
  assumes "probeAttempt fuel I D S lanes de k pr = Result (k1, pr1)"
    and "hitCount pr = 0" and "hitCount pr1 \<noteq> 0"
  shows "hitCount pr1 = 1
         \<and> triMaterialTexture S (triIndicesTexture S (hitTriAddr k1)) = bssrdfMatId k
         \<and> vlength D (vsub (probeHitPoint pr1 0) (hitpoint k)) / sampledRadius pr1 < maxRatio I
         \<and> abs (dot (probeHitPointNormal pr1 0) (probeRayDir pr1)) > minNormalDot I"
proof -
  obtain r1 ka where a: "rd D k = (r1, ka)" by (cases "rd D k")
  obtain r2 kb where b: "rd D ka = (r2, kb)" by (cases "rd D ka")
  obtain r3 kc where c: "rd D kb = (r3, kc)" by (cases "rd D kb")
  obtain r4 kd where d: "rd D kc = (r4, kd)" by (cases "rd D kc")
  obtain r5 ke where e: "rd D kd = (r5, ke)" by (cases "rd D kd")
  have pk: "probed k ke"
    using rd_probed[OF a] rd_probed[OF b] rd_probed[OF c] rd_probed[OF d] rd_probed[OF e]
    by (blast intro: probed_trans)
  from assms(1) a b c d e obtain pr0 brk where
    st: "probeStep fuel I D S lanes ke pr0 = Result ((k1, pr1), brk)"
    and h: "hitCount pr0 = hitCount pr"
    by (auto simp: probeAttempt_def searchLoop_once rbind_Result_iff split: prod.splits)
  from probeStep_records[OF st] h assms(2,3) probed_fields[OF pk]
  show ?thesis by simp
qed

text \<open>
  C6.  When the loop of the attempts, entered with no exit point (\<open>hitCount = 0\<close>), returns,
  every exit point it has recorded (every index below the final \<open>hitCount\<close>, which is the
  hit of the last traversal) passed the three tests: the material of the triangle hit is
  \<open>bssrdfMatId\<close>, the length of the vector from the entry point to the exit point divided by
  \<open>sampledRadius\<close> is below \<open>maxRatio = 1.4f\<close>, and the absolute value of the dot product of
  the stored normal and the direction of the probe ray is above \<open>minNormalDot = 0.5f\<close>.
\<close>

theorem recorded_exit_points_pass_the_three_tests:
  assumes "probeLoop fuel I D S lanes de m k pr = Result (m', k', pr')"
    and "hitCount pr = 0" and "i < nat (hitCount pr')"
  shows "i = 0 \<and> hitCount pr' = 1
         \<and> triMaterialTexture S (triIndicesTexture S (hitTriAddr k')) = bssrdfMatId k
         \<and> vlength D (vsub (probeHitPoint pr' i) (hitpoint k)) / sampledRadius pr' < maxRatio I
         \<and> abs (dot (probeHitPointNormal pr' i) (probeRayDir pr')) > minNormalDot I"
  using assms
proof (induction fuel I D S lanes de m k pr rule: probeLoop.induct)
  case (1 fuel I D S lanes de m k pr)
  from "1.prems"(3) have ne: "hitCount pr' \<noteq> 0" by auto
  from probeLoop_cases[OF "1.prems"(1)] show ?case
  proof (elim disjE conjE exE)
    assume "(m', k', pr') = (m, k, pr)"
    with "1.prems"(2) ne show ?thesis by simp
  next
    fix k1 pr1
    assume c: "hitCount pr = 0" "0 < m"
      and a: "probeAttempt fuel I D S lanes de k pr = Result (k1, pr1)"
      and l: "probeLoop fuel I D S lanes de (m - 1) k1 pr1 = Result (m', k', pr')"
    from c have cc: "hitCount pr = 0 \<and> 0 < m" by simp
    note pf = probed_fields[OF probeAttempt_probed[OF a]]
    show ?thesis
    proof (cases "hitCount pr1 = 0")
      case True
      from "1.IH"[OF cc a refl l True "1.prems"(3)] pf show ?thesis by auto
    next
      case False
      with l have "(m', k', pr') = (m - 1, k1, pr1)"
        by (subst (asm) probeLoop.simps) simp
      with probeAttempt_records[OF a c(1) False] "1.prems"(3) show ?thesis by auto
    qed
  qed
qed

text \<open>The local reflection at the entry point.\<close>

lemma entrySample_fields:
  assumes "entrySample D into k = (out, k2)"
  shows "mask k2 = mask k" "mat k2 = mat k" "hitpoint k2 = hitpoint k" "nl k2 = nl k"
    "medium k2 = medium k"
  using assms by (auto simp: entrySample_def rd_def split: prod.splits)

text \<open>
  C5.  The loop of the attempts, entered with \<open>maxLoop = 100\<close>: when it returns, the counter
  is between 0 and 100 and the state is the one after \<open>100 - maxLoop\<close> attempts; it fails
  to return only when a traversal of the scene fails to return; and when it returns with
  \<open>hitCount = 0\<close> after a refraction at the entry point, all 100 attempts were made and the
  branch ends in the local reflection: \<open>mask\<close> times \<open>beta * ks * objcol\<close>, \<open>hitpoint\<close>
  moved by \<open>nl * RAY_MIN\<close>.
\<close>

theorem probe_loop_makes_at_most_100_attempts_and_falls_back_to_local_reflection:
  "(probeLoop fuel I D S lanes de 100 k pr = Result (m, k', pr')
      \<longrightarrow> 0 \<le> m \<and> m \<le> 100
          \<and> attempts (nat (100 - m)) fuel I D S lanes de k pr = Result (k', pr'))
   \<and> (probeLoop fuel I D S lanes de 100 k pr = OutOfFuel
      \<longrightarrow> (\<exists>b orig4 dir4 n0.
             intersectBVHandTriangles fuel I S lanes b orig4 dir4 n0 False = OutOfFuel))
   \<and> (entrySample D into k = ((False, sn, b, nd), k2)
      \<and> probeLoop fuel I D S lanes (diffusionOf I D (k2\<lparr>beta := b, nextdir := nd\<rparr>)) 100
           (k2\<lparr>beta := b, nextdir := nd\<rparr>) (junk\<lparr>hitCount := 0\<rparr>) = Result (m4, k4, pr4)
      \<and> hitCount pr4 = 0
      \<longrightarrow> m4 = 0
          \<and> shadeSubsurface fuel I D S lanes junk into k = Result (localReflection I k4)
          \<and> mask (localReflection I k4)
              = vmul (mask k) (vmul (vscale b (ks (mat k))) (objcol (mat k)))
          \<and> hitpoint (localReflection I k4) = vadd (hitpoint k) (vscale (nl k) (RAY_MIN I)))"
proof (intro conjI impI)
  assume "probeLoop fuel I D S lanes de 100 k pr = Result (m, k', pr')"
  from probeLoop_counter[OF this]
  show "0 \<le> m" "m \<le> 100" "attempts (nat (100 - m)) fuel I D S lanes de k pr = Result (k', pr')"
    by simp_all
next
  assume "probeLoop fuel I D S lanes de 100 k pr = OutOfFuel"
  then show "\<exists>b orig4 dir4 n0.
      intersectBVHandTriangles fuel I S lanes b orig4 dir4 n0 False = OutOfFuel"
    by (rule probeLoop_fuel)
next
  assume h: "entrySample D into k = ((False, sn, b, nd), k2)
      \<and> probeLoop fuel I D S lanes (diffusionOf I D (k2\<lparr>beta := b, nextdir := nd\<rparr>)) 100
           (k2\<lparr>beta := b, nextdir := nd\<rparr>) (junk\<lparr>hitCount := 0\<rparr>) = Result (m4, k4, pr4)
      \<and> hitCount pr4 = 0"
  then have e: "entrySample D into k = ((False, sn, b, nd), k2)"
    and l: "probeLoop fuel I D S lanes (diffusionOf I D (k2\<lparr>beta := b, nextdir := nd\<rparr>)) 100
           (k2\<lparr>beta := b, nextdir := nd\<rparr>) (junk\<lparr>hitCount := 0\<rparr>) = Result (m4, k4, pr4)"
    and z: "hitCount pr4 = 0" by simp_all
  from probeLoop_counter[OF l] z show "m4 = 0" by simp
  from e l z show "shadeSubsurface fuel I D S lanes junk into k = Result (localReflection I k4)"
    by (simp add: shadeSubsurface_def Let_def rbind_def)
  note pf = probed_fields[OF probeLoop_probed[OF l]]
  note ef = entrySample_fields[OF e]
  from pf ef show "mask (localReflection I k4)
              = vmul (mask k) (vmul (vscale b (ks (mat k))) (objcol (mat k)))"
    by (simp add: localReflection_def nudge_def Let_def)
  from pf ef show "hitpoint (localReflection I k4) = vadd (hitpoint k) (vscale (nl k) (RAY_MIN I))"
    by (simp add: localReflection_def nudge_def Let_def)
qed

text \<open>No branch of the material switch writes \<open>medium\<close>, the two toggles being guarded.\<close>

lemma shadeGlass_medium: "medium (shadeGlass I D into k) = medium k"
proof (cases "fequal I (alphax (mat k)) 0")
  case True
  then show ?thesis
    by (simp add: shadeGlass_def nudgeSide_def toggleMedium_id rd_def split: prod.splits)
next
  case False
  obtain b nd reflB k3 where g: "glassSample I D into k = ((b, nd, reflB), k3)"
    by (metis prod.exhaust)
  with False glassSample_fields(3)[OF g] show ?thesis
    by (simp add: shadeGlass_def glassUpdate_def nudgeSide_def toggleMedium_id Let_def)
qed

lemma shade_branches_medium:
  "medium (shadeDiff I D k) = medium k"
  "medium (shadeRefl I D k) = medium k"
  "medium (shadeDiffRefl I D k) = medium k"
  "medium (shadeFresnel I D k) = medium k"
  "medium (shadeMedium I into k) = medium k"
  "medium (shadeNull I k) = medium k"
  "medium (localReflection I k) = medium k"
  by (simp_all add: shadeDiff_def shadeRefl_def shadeDiffRefl_def shadeFresnel_def
        shadeMedium_def shadeNull_def localReflection_def nudge_def directLight_def
        toggleMedium_id rd_def Let_def split: prod.splits)

lemma chooseExit_medium:
  assumes "chooseExit I D de k pr = Result k'"
  shows "medium k' = medium k"
  using assms
  by (auto simp: chooseExit_def rd_def Let_def split: prod.splits if_splits)

lemma shadeSubsurface_medium:
  assumes "shadeSubsurface fuel I D S lanes junk into k = Result k'"
  shows "medium k' = medium k"
proof -
  obtain reflB sn b nd k2 where e: "entrySample D into k = ((reflB, sn, b, nd), k2)"
    by (metis prod.exhaust)
  note ef = entrySample_fields[OF e]
  show ?thesis
  proof (cases reflB)
    case True
    with assms e ef show ?thesis
      by (auto simp: shadeSubsurface_def Let_def shade_branches_medium)
  next
    case False
    with assms e obtain m4 k4 pr4 where
      l: "probeLoop fuel I D S lanes (diffusionOf I D (k2\<lparr>beta := b, nextdir := nd\<rparr>)) 100
            (k2\<lparr>beta := b, nextdir := nd\<rparr>) (junk\<lparr>hitCount := 0\<rparr>) = Result (m4, k4, pr4)"
      and r: "(if hitCount pr4 = 0 then Result (localReflection I k4)
               else chooseExit I D (diffusionOf I D (k2\<lparr>beta := b, nextdir := nd\<rparr>)) k4 pr4)
              = Result k'"
      by (auto simp: shadeSubsurface_def Let_def rbind_Result_iff)
    from probed_fields(6)[OF probeLoop_probed[OF l]] ef have "medium k4 = medium k" by simp
    with r show ?thesis
      by (auto simp: shade_branches_medium dest: chooseExit_medium split: if_splits)
  qed
qed

lemma shade_medium:
  assumes "shade fuel I D S lanes junk into k = Result (Break k')"
  shows "medium k' = medium k"
  using assms
  by (cases "refltype (mat k)")
     (auto simp: shade_def shade_branches_medium shadeGlass_medium rbind_Result_iff
        dest: shadeSubsurface_medium)

lemma describeTriangle_medium: "medium (describeTriangle I D S k) = medium k"
  by (simp add: describeTriangle_def Let_def split: prod.splits)

lemma shade_then_medium:
  assumes "rbind (shade fuel I D S lanes junk into k5)
             (\<lambda>fl. case fl of
                     Break k6 \<Rightarrow> Result (Break (k6\<lparr>rayorig := hitpoint k6, raydir := nextdir k6\<rparr>))
                   | Return c \<Rightarrow> Result (Return c)) = Result (Break k')"
  shows "medium k' = medium k5"
proof -
  from assms obtain fl where s: "shade fuel I D S lanes junk into k5 = Result fl"
    and r: "(case fl of
               Break k6 \<Rightarrow> Result (Break (k6\<lparr>rayorig := hitpoint k6, raydir := nextdir k6\<rparr>))
             | Return c \<Rightarrow> Result (Return c)) = Result (Break k')"
    by (auto simp: rbind_Result_iff)
  from r obtain k6 where "fl = Break k6" "k' = k6\<lparr>rayorig := hitpoint k6, raydir := nextdir k6\<rparr>"
    by (cases fl) auto
  with shade_medium[of fuel I D S lanes junk into k5 k6] s show ?thesis by simp
qed

lemma surfaceStep_medium:
  assumes "surfaceStep fuel I D S lanes junk k = Result (Break k')"
  shows "medium k' = medium k"
  using shade_then_medium[OF assms[unfolded surfaceStep_def Let_def]]
  by (simp add: describeTriangle_medium)

lemma closestHit_medium:
  assumes "closestHit fuel I S lanes k = Result k2"
  shows "medium k2 = medium k"
  using assms
  by (auto simp: closestHit_def initBounce_def rbind_Result_iff Let_def split: prod.splits)

lemma mediaStep_skip: "medium k = MEDIUM_NO \<Longrightarrow> mediaStep I D k = (k, False)"
  by (simp add: mediaStep_def)

lemma bounce_medium:
  assumes "bounce fuel I D S lanes junk k = Result (Break k')" and "medium k = MEDIUM_NO"
  shows "medium k' = MEDIUM_NO"
proof -
  from assms(1) obtain k2 where c: "closestHit fuel I S lanes k = Result k2"
    and r: "(if sceneT k2 > flit I (10 ^ 10) then
                (let k3 = k2\<lparr>mat := (mat k2)\<lparr>emit := envLight (raydir k2)\<rparr>\<rparr>
                 in Result (Return (vadd (accucolor k3) (vmul (mask k3) (emit (mat k3))))))
              else
                (case mediaStep I D k2 of
                   (k3, continue) \<Rightarrow>
                     if continue then Result (Break k3)
                     else surfaceStep fuel I D S lanes junk k3)) = Result (Break k')"
    by (auto simp: bounce_def rbind_Result_iff)
  from closestHit_medium[OF c] assms(2) have m2: "medium k2 = MEDIUM_NO" by simp
  from r have "surfaceStep fuel I D S lanes junk k2 = Result (Break k')"
    by (simp add: mediaStep_skip[OF m2] Let_def split: if_splits)
  from surfaceStep_medium[OF this] m2 show ?thesis by simp
qed

lemma frameAt_medium:
  "frameAt j fuel I D S lanes junk k = Some k' \<Longrightarrow> medium k = MEDIUM_NO
     \<Longrightarrow> medium k' = MEDIUM_NO"
proof (induction j arbitrary: k')
  case 0
  then show ?case by simp
next
  case (Suc j)
  from Suc.prems(1) obtain k1 where
    f: "frameAt j fuel I D S lanes junk k = Some k1"
    and b: "bounce fuel I D S lanes junk k1 = Result (Break k')"
    by (auto split: option.splits if_splits result.splits flow.splits)
  from bounce_medium[OF b Suc.IH[OF f Suc.prems(2)]] show ?case .
qed

text \<open>
  C8.  \<open>objMedium\<close> is \<open>MEDIUM_NO\<close>, as \<open>airMedium\<close> is, so the guarded toggles change nothing;
  at the head of every pass through the loop body that the kernel reaches, \<open>medium\<close> is
  \<open>MEDIUM_NO\<close>; and when the traversal of that pass returns, the block of the participating
  media is skipped: it draws no random number and leaves every variable as it is.
\<close>

theorem medium_stays_MEDIUM_NO_and_media_block_is_skipped:
  assumes "frameAt j fuel I D S lanes junk (startFrame k0 g orig3 dir3) = Some k"
  shows "objMedium = MEDIUM_NO \<and> airMedium = objMedium \<and> toggleMedium stay k = k
         \<and> medium k = MEDIUM_NO
         \<and> (\<forall>k2. closestHit fuel I S lanes k = Result k2
                \<longrightarrow> medium k2 = MEDIUM_NO \<and> mediaStep I D k2 = (k2, False))"
proof -
  have "medium (startFrame k0 g orig3 dir3) = MEDIUM_NO" by (simp add: startFrame_def)
  from frameAt_medium[OF assms this] have m: "medium k = MEDIUM_NO" .
  have "\<forall>k2. closestHit fuel I S lanes k = Result k2
                \<longrightarrow> medium k2 = MEDIUM_NO \<and> mediaStep I D k2 = (k2, False)"
    using closestHit_medium m mediaStep_skip by metis
  with m show ?thesis
    by (simp add: objMedium_def airMedium_def toggleMedium_id)
qed

section \<open>The branches on the concrete inputs\<close>

lemma probe_ray_hit:
  "make_float4 (v3x hitPoint3) (v3y hitPoint3) (v3z hitPoint3) (RAY_MIN I32) = hitOrig"
  by (simp add: hitPoint3_def hitOrig_def)

lemma probe_ray_miss:
  "make_float4 (v3x missPoint3) (v3y missPoint3) (v3z missPoint3) (RAY_MIN I32) = missOrig"
  by (simp add: missPoint3_def missOrig_def)

lemma probe_ray_up: "make_float4 0 0 1 (RAY_MAX I32) = upDir"
  by (simp add: upDir_def)

lemma len_lt: "ofReal 2 < Bits 1621981420" "\<not> ofReal 2 < Bits 1065353216"
  by (simp_all add: f32_eval)

lemmas frame_eval = mirrorFrame_def glassFrame_def skinFrame_def testFrame_def testProbe_def
  testDevice_def defaultMaterial_def hitPoint3_def missPoint3_def
  frame.simps probe.simps device.simps material.simps exitPoint.simps Vec3f.sel
  vadd_def vsub_def vmul_def vscale_def scalev_def dot_def RAY_MIN_def maxRatio_def
  minNormalDot_def maxSurfaceHit_def

text \<open>Witness of C3: a mirror facing the ray.\<close>

theorem mirror_reflects_about_normal_and_scales_mask_by_ks_objcol_witness:
  "refltype (mat mirrorFrame) = MAT_REFL \<and> fequal I32 (alphax (mat mirrorFrame)) 0
   \<and> shade 0 I32 (testDevice 1 False hitPoint3) scene1 idle testProbe True mirrorFrame
       = Result (Break (shadeRefl I32 (testDevice 1 False hitPoint3) mirrorFrame))
   \<and> nextdir (shadeRefl I32 (testDevice 1 False hitPoint3) mirrorFrame)
       = Vec3f (Bits 0) (Bits 0) (Bits 3212836864)
   \<and> mask (shadeRefl I32 (testDevice 1 False hitPoint3) mirrorFrame)
       = Vec3f (Bits 1065353216) (Bits 1065353216) (Bits 1065353216)"
proof -
  have h1: "refltype (mat mirrorFrame) = MAT_REFL"
    by (simp add: mirrorFrame_def)
  have h2: "fequal I32 (alphax (mat mirrorFrame)) 0"
    by (simp add: mirrorFrame_def testFrame_def defaultMaterial_def I32_def f32_eval)
  have n: "normalize (testDevice 1 False hitPoint3)
             (vsub (raydir mirrorFrame)
                (vscale (vscale (surfN mirrorFrame) (dot (surfN mirrorFrame) (raydir mirrorFrame)))
                   (flit I32 2)))
           = Vec3f (Bits 0) (Bits 0) (Bits 3212836864)"
    apply (simp only: frame_eval)
    apply (simp add: I32_def f32_eval)
    done
  have m: "Vec3f (v3x (mask mirrorFrame) * (ks (mat mirrorFrame) * v3x (objcol (mat mirrorFrame))))
                 (v3y (mask mirrorFrame) * (ks (mat mirrorFrame) * v3y (objcol (mat mirrorFrame))))
                 (v3z (mask mirrorFrame) * (ks (mat mirrorFrame) * v3z (objcol (mat mirrorFrame))))
           = Vec3f (Bits 1065353216) (Bits 1065353216) (Bits 1065353216)"
    apply (simp only: frame_eval)
    apply (simp add: f32_eval)
    done
  from mirror_reflects_about_normal_and_scales_mask_by_ks_objcol[OF h1 h2,
      of 0 "testDevice 1 False hitPoint3" scene1 idle testProbe True] h1 h2
  show ?thesis unfolding n m by blast
qed







text \<open>
  An attempt whose probe ray is the ray \<open>hitOrig\<close>: the traversal finds the triangle at
  distance 1, inside the length 2 of the probe ray, and the exit point passes the tests.
\<close>

lemma exit_eval:
  "probeHit (testDevice u False hitPoint3) scene1bits
     (k\<lparr>hitTriAddr := 0, hitDistance := Bits 1065353216, votes := b\<rparr>)
     (pr\<lparr>probeRayOrig := hitPoint3, probeRayDir := Vec3f 0 0 1, probeRayLength := ofReal 2,
         sampledRadius := 1, probeNormal := nrm\<rparr>)
   = \<lparr> probeHitPointAny = Vec3f (Bits 1048576000) (Bits 1048576000) (Bits 0),
       realRadius = Bits 1065353216, surfaceMat = 7,
       smoothNormal = Vec3f (Bits 0) (Bits 0) (Bits 1065353216),
       probeObjColor = Vec3f (Bits 1065353216) (Bits 1065353216) (Bits 1065353216),
       normalDot = Bits 1065353216 \<rparr>"
  apply (simp only: probeHit_def textureFetching_def Let_def)
  apply (simp only: frame_eval sel_eval prod.case fst_conv snd_conv)
  apply (simp add: f32_eval)
  done

lemma accept_eval:
  "Bits 1065353216 / 1 < maxRatio I32" "minNormalDot I32 < Bits 1065353216"
  "\<not> ofReal 2 < Bits 1065353216" "ofReal 2 - Bits 1065353216 = Bits 1065353216"
  "vadd (Vec3f (Bits 1048576000) (Bits 1048576000) (Bits 0)) (scalev (RAY_MIN I32) (Vec3f 0 0 1))
   = Vec3f (Bits 1048576000) (Bits 1048576000) (Bits 925353388)"
  apply (simp_all only: frame_eval)
  apply (simp_all add: I32_def f32_eval)
  done

lemma step_hit:
  assumes "bssrdfMatId k = 7" and "\<not> useTexture (mat k)" and "hitCount pr = 0"
  shows "probeStep (Suc (Suc (Suc (Suc 0)))) I32 (testDevice u False hitPoint3) scene1 idle k
     (pr\<lparr>probeRayOrig := hitPoint3, probeRayDir := Vec3f 0 0 1, probeRayLength := ofReal 2,
         sampledRadius := 1\<rparr>)
   = Result ((k\<lparr>hitTriAddr := 0, hitDistance := Bits 1065353216, votes := Suc (votes k)\<rparr>,
              pr\<lparr>probeRayOrig := Vec3f (Bits 1048576000) (Bits 1048576000) (Bits 925353388),
                 probeRayDir := Vec3f 0 0 1,
                 probeRayLength := Bits 1065353216,
                 sampledRadius := 1,
                 probeNormal := Vec3f (Bits 0) (Bits 0) (Bits 1065353216),
                 probeRayVec := vsub (Vec3f (Bits 1048576000) (Bits 1048576000) (Bits 0))
                                     (hitpoint k),
                 probeHitPoint := (probeHitPoint pr)
                    (0 := Vec3f (Bits 1048576000) (Bits 1048576000) (Bits 0)),
                 probeHitPointNormal := (probeHitPointNormal pr)
                    (0 := Vec3f (Bits 0) (Bits 0) (Bits 1065353216)),
                 probeHitPointColor := (probeHitPointColor pr) (0 := Vec3f 1 1 1),
                 hitCount := 1\<rparr>), False)"
  using assms
  apply (simp add: probeStep_def probe_ray_hit probe_ray_up run_hit_nearest)
  apply (simp add: rbind_def Let_def probeRecord_def scene1_eval exit_eval accepted_def
      recordExit_def accept_eval maxSurfaceHit_def)
  done


lemma dev_fields:
  "curand_uniform (testDevice u r p) = (\<lambda>g. (u, Suc g))"
  "sampleBSSRDFprobeRaySoE (testDevice u r p)
     = (\<lambda>r1 r2 r3 r4 r5 nrm q st rh lx ly. (p, Vec3f 0 0 1, ofReal 2, 1))"
  "microfacetSampling (testDevice u r p)
     = (\<lambda>r1 r2 into dir nrm eta ax. (r, nrm, Vec3f 1 1 1, dir))"
  by (simp_all add: testDevice_def)

lemma attempt_hit:
  assumes "bssrdfMatId k = 7" and "\<not> useTexture (mat k)" and "hitCount pr = 0"
  shows "probeAttempt (Suc (Suc (Suc (Suc 0)))) I32 (testDevice u False hitPoint3) scene1 idle
           de k pr
   = Result (k\<lparr>rdState := Suc (Suc (Suc (Suc (Suc (rdState k))))), hitTriAddr := 0,
                hitDistance := Bits 1065353216, votes := Suc (votes k)\<rparr>,
             pr\<lparr>probeRayOrig := Vec3f (Bits 1048576000) (Bits 1048576000) (Bits 925353388),
                probeRayDir := Vec3f 0 0 1,
                probeRayLength := Bits 1065353216,
                sampledRadius := 1,
                probeNormal := Vec3f (Bits 0) (Bits 0) (Bits 1065353216),
                probeRayVec := vsub (Vec3f (Bits 1048576000) (Bits 1048576000) (Bits 0))
                                    (hitpoint k),
                probeHitPoint := (probeHitPoint pr)
                   (0 := Vec3f (Bits 1048576000) (Bits 1048576000) (Bits 0)),
                probeHitPointNormal := (probeHitPointNormal pr)
                   (0 := Vec3f (Bits 0) (Bits 0) (Bits 1065353216)),
                probeHitPointColor := (probeHitPointColor pr) (0 := Vec3f 1 1 1),
                hitCount := 1\<rparr>)"
  using assms
  by (simp add: probeAttempt_def rd_def dev_fields searchLoop_once step_hit rbind_def)

lemma loop_hit:
  assumes "bssrdfMatId k = 7" and "\<not> useTexture (mat k)" and "hitCount pr = 0"
  shows "probeLoop (Suc (Suc (Suc (Suc 0)))) I32 (testDevice u False hitPoint3) scene1 idle
           de 100 k pr
   = Result (99,
             k\<lparr>rdState := Suc (Suc (Suc (Suc (Suc (rdState k))))), hitTriAddr := 0,
                hitDistance := Bits 1065353216, votes := Suc (votes k)\<rparr>,
             pr\<lparr>probeRayOrig := Vec3f (Bits 1048576000) (Bits 1048576000) (Bits 925353388),
                probeRayDir := Vec3f 0 0 1,
                probeRayLength := Bits 1065353216,
                sampledRadius := 1,
                probeNormal := Vec3f (Bits 0) (Bits 0) (Bits 1065353216),
                probeRayVec := vsub (Vec3f (Bits 1048576000) (Bits 1048576000) (Bits 0))
                                    (hitpoint k),
                probeHitPoint := (probeHitPoint pr)
                   (0 := Vec3f (Bits 1048576000) (Bits 1048576000) (Bits 0)),
                probeHitPointNormal := (probeHitPointNormal pr)
                   (0 := Vec3f (Bits 0) (Bits 0) (Bits 1065353216)),
                probeHitPointColor := (probeHitPointColor pr) (0 := Vec3f 1 1 1),
                hitCount := 1\<rparr>)"
  apply (subst probeLoop.simps)
  apply (simp add: assms attempt_hit)
  apply (subst probeLoop.simps)
  apply simp
  done

lemma skin_facts:
  "bssrdfMatId skinFrame = 7" "\<not> useTexture (mat skinFrame)" "hitCount testProbe = 0"
  "refltype (mat skinFrame) = MAT_SUBSURFACE"
  by (simp_all add: skinFrame_def testFrame_def testProbe_def defaultMaterial_def)

text \<open>
  C10.  The generator draws \<open>1.0f\<close>, which \<open>curand_uniform\<close> can return, and the probing has
  accepted one exit point: \<open>nextPointIdx\<close> is then 1, the capacity of the three arrays, and
  the branch reads \<open>probeHitPoint[1]\<close>, outside the arrays.
\<close>

theorem exit_index_is_out_of_bounds_when_generator_draws_one:
  "nextPointIdx I32 (Bits 1065353216) 1 = int maxSurfaceHit
   \<and> shadeSubsurface (Suc (Suc (Suc (Suc 0)))) I32 (testDevice (Bits 1065353216) False hitPoint3)
        scene1 idle testProbe True skinFrame = UB"
proof -
  have i: "nextPointIdx I32 (Bits 1065353216) 1 = 1"
    by (simp add: nextPointIdx_def I32_def f32_eval)
  have "shadeSubsurface (Suc (Suc (Suc (Suc 0)))) I32 (testDevice (Bits 1065353216) False hitPoint3)
        scene1 idle testProbe True skinFrame = UB"
    by (simp add: shadeSubsurface_def entrySample_def rd_def dev_fields loop_hit skin_facts
        rbind_def chooseExit_def i maxSurfaceHit_def Let_def)
  with i show ?thesis by (simp add: maxSurfaceHit_def)
qed

text \<open>Witness of C6: the same probing.\<close>

theorem recorded_exit_points_pass_the_three_tests_witness:
  "\<exists>k' pr'.
     probeLoop (Suc (Suc (Suc (Suc 0)))) I32 (testDevice 1 False hitPoint3) scene1 idle
       (diffusionOf I32 (testDevice 1 False hitPoint3) skinFrame) 100 skinFrame testProbe
       = Result (99, k', pr')
     \<and> hitCount testProbe = 0 \<and> (0 :: nat) < nat (hitCount pr') \<and> hitCount pr' = 1
     \<and> hitTriAddr k' = 0
     \<and> probeHitPoint pr' 0 = Vec3f (Bits 1048576000) (Bits 1048576000) (Bits 0)
     \<and> probeHitPointNormal pr' 0 = Vec3f (Bits 0) (Bits 0) (Bits 1065353216)
     \<and> triMaterialTexture scene1 (triIndicesTexture scene1 (hitTriAddr k')) = bssrdfMatId skinFrame
     \<and> vlength (testDevice 1 False hitPoint3) (vsub (probeHitPoint pr' 0) (hitpoint skinFrame))
         / sampledRadius pr' < maxRatio I32
     \<and> abs (dot (probeHitPointNormal pr' 0) (probeRayDir pr')) > minNormalDot I32"
proof -
  note run = loop_hit[OF skin_facts(1,2,3), of 1 "diffusionOf I32 (testDevice 1 False hitPoint3) skinFrame"]
  have i: "(0 :: nat) < nat (hitCount
     (testProbe\<lparr>probeRayOrig := Vec3f (Bits 1048576000) (Bits 1048576000) (Bits 925353388),
                probeRayDir := Vec3f 0 0 1,
                probeRayLength := Bits 1065353216,
                sampledRadius := 1,
                probeNormal := Vec3f (Bits 0) (Bits 0) (Bits 1065353216),
                probeRayVec := vsub (Vec3f (Bits 1048576000) (Bits 1048576000) (Bits 0))
                                    (hitpoint skinFrame),
                probeHitPoint := (probeHitPoint testProbe)
                   (0 := Vec3f (Bits 1048576000) (Bits 1048576000) (Bits 0)),
                probeHitPointNormal := (probeHitPointNormal testProbe)
                   (0 := Vec3f (Bits 0) (Bits 0) (Bits 1065353216)),
                probeHitPointColor := (probeHitPointColor testProbe) (0 := Vec3f 1 1 1),
                hitCount := 1\<rparr>))"
    by simp
  from recorded_exit_points_pass_the_three_tests[OF run skin_facts(3) i] run skin_facts(3)
  show ?thesis by simp
qed

text \<open>
  An attempt whose probe ray is the ray \<open>missOrig\<close>: the traversal finds nothing, and the
  search ends at once.
\<close>

lemma attempt_miss:
  "probeAttempt (Suc (Suc (Suc (Suc 0)))) I32 (testDevice u False missPoint3) scene1 idle de k pr
   = Result (k\<lparr>rdState := Suc (Suc (Suc (Suc (Suc (rdState k))))), hitTriAddr := - 1,
                hitDistance := Bits 1621981420, votes := Suc (votes k)\<rparr>,
             pr\<lparr>probeRayOrig := missPoint3, probeRayDir := Vec3f 0 0 1,
                probeRayLength := ofReal 2, sampledRadius := 1\<rparr>)"
  by (simp add: probeAttempt_def rd_def dev_fields searchLoop_once probeStep_def
       probe_ray_miss probe_ray_up run_miss rbind_def probeRecord_def len_lt Let_def)

lemma loop_miss:
  "hitCount pr = 0 \<Longrightarrow>
   \<exists>k' pr'. probeLoop (Suc (Suc (Suc (Suc 0)))) I32 (testDevice u False missPoint3) scene1 idle
               de (int n) k pr = Result (0, k', pr') \<and> hitCount pr' = 0"
proof (induction n arbitrary: k pr)
  case 0
  then show ?case by (subst probeLoop.simps) simp
next
  case (Suc n)
  have "hitCount (pr\<lparr>probeRayOrig := missPoint3, probeRayDir := Vec3f 0 0 1,
                probeRayLength := ofReal 2, sampledRadius := 1\<rparr>) = 0"
    using Suc.prems by simp
  from Suc.IH[OF this] Suc.prems show ?case
    by (subst probeLoop.simps) (simp add: attempt_miss)
qed

lemma skin_values:
  "vmul (mask skinFrame) (vmul (vscale (Vec3f 1 1 1) (ks (mat skinFrame))) (objcol (mat skinFrame)))
   = Vec3f (Bits 1065353216) (Bits 1065353216) (Bits 1065353216)"
  "vadd (hitpoint skinFrame) (vscale (nl skinFrame) (RAY_MIN I32))
   = Vec3f (Bits 0) (Bits 0) (Bits 925353388)"
  apply (simp_all only: frame_eval)
  apply (simp_all add: I32_def f32_eval)
  done

text \<open>
  Witness of C5: 100 attempts that find nothing, then the local reflection; and no iteration
  allowed to the traversal, for the second part.
\<close>

theorem probe_loop_makes_at_most_100_attempts_and_falls_back_to_local_reflection_witness:
  "(\<exists>k' pr'.
      probeLoop (Suc (Suc (Suc (Suc 0)))) I32 (testDevice 1 False missPoint3) scene1 idle
        (diffusionOf I32 (testDevice 1 False missPoint3) skinFrame) 100 skinFrame testProbe
        = Result (0, k', pr')
      \<and> attempts 100 (Suc (Suc (Suc (Suc 0)))) I32 (testDevice 1 False missPoint3) scene1 idle
          (diffusionOf I32 (testDevice 1 False missPoint3) skinFrame) skinFrame testProbe
          = Result (k', pr'))
   \<and> probeLoop 0 I32 (testDevice 1 False missPoint3) scene1 idle
        (diffusionOf I32 (testDevice 1 False missPoint3) skinFrame) 100 skinFrame testProbe
        = OutOfFuel
   \<and> (\<exists>b orig4 dir4 n0. intersectBVHandTriangles 0 I32 scene1 idle b orig4 dir4 n0 False = OutOfFuel)
   \<and> (\<exists>k4.
        entrySample (testDevice 1 False missPoint3) True skinFrame
          = ((False, nl skinFrame, Vec3f 1 1 1, raydir skinFrame),
             skinFrame\<lparr>rdState := Suc (Suc (rdState skinFrame))\<rparr>)
        \<and> shadeSubsurface (Suc (Suc (Suc (Suc 0)))) I32 (testDevice 1 False missPoint3) scene1 idle
            testProbe True skinFrame = Result (localReflection I32 k4)
        \<and> mask (localReflection I32 k4)
            = Vec3f (Bits 1065353216) (Bits 1065353216) (Bits 1065353216)
        \<and> hitpoint (localReflection I32 k4) = Vec3f (Bits 0) (Bits 0) (Bits 925353388))"
proof -
  note thm5 = probe_loop_makes_at_most_100_attempts_and_falls_back_to_local_reflection
  let ?D = "testDevice 1 False missPoint3"
  let ?f = "Suc (Suc (Suc (Suc 0)))"
  from loop_miss[OF skin_facts(3), of 1 "diffusionOf I32 ?D skinFrame" 100 skinFrame]
  obtain k' pr' where
    l1: "probeLoop ?f I32 ?D scene1 idle (diffusionOf I32 ?D skinFrame) 100 skinFrame testProbe
           = Result (0, k', pr')" by auto
  from thm5[THEN conjunct1, rule_format, OF l1]
  have a1: "attempts 100 ?f I32 ?D scene1 idle (diffusionOf I32 ?D skinFrame) skinFrame testProbe
              = Result (k', pr')" by simp
  have l2: "probeLoop 0 I32 ?D scene1 idle (diffusionOf I32 ?D skinFrame) 100 skinFrame testProbe
              = OutOfFuel"
    apply (subst probeLoop.simps)
    apply (simp add: skin_facts probeAttempt_def rd_def dev_fields searchLoop_once probeStep_def
        intersectBVHandTriangles_def rbind_def)
    done
  from thm5[THEN conjunct2, THEN conjunct1, rule_format, OF l2]
  have a2: "\<exists>b orig4 dir4 n0. intersectBVHandTriangles 0 I32 scene1 idle b orig4 dir4 n0 False
              = OutOfFuel" .
  have e: "entrySample ?D True skinFrame
          = ((False, nl skinFrame, Vec3f 1 1 1, raydir skinFrame),
             skinFrame\<lparr>rdState := Suc (Suc (rdState skinFrame))\<rparr>)"
    by (simp add: entrySample_def rd_def dev_fields)
  let ?k3 = "skinFrame\<lparr>rdState := Suc (Suc (rdState skinFrame))\<rparr>
               \<lparr>beta := Vec3f 1 1 1, nextdir := raydir skinFrame\<rparr>"
  have "hitCount (testProbe\<lparr>hitCount := 0\<rparr>) = 0" by simp
  from loop_miss[OF this, of 1 "diffusionOf I32 ?D ?k3" 100 ?k3]
  obtain k4 pr4 where
    l3: "probeLoop ?f I32 ?D scene1 idle (diffusionOf I32 ?D ?k3) 100 ?k3
           (testProbe\<lparr>hitCount := 0\<rparr>) = Result (0, k4, pr4)"
    and z: "hitCount pr4 = 0" by auto
  from thm5[THEN conjunct2, THEN conjunct2, rule_format, OF conjI, OF e conjI, OF l3 z]
  have a3: "shadeSubsurface ?f I32 ?D scene1 idle testProbe True skinFrame
              = Result (localReflection I32 k4)
            \<and> mask (localReflection I32 k4)
                = Vec3f (Bits 1065353216) (Bits 1065353216) (Bits 1065353216)
            \<and> hitpoint (localReflection I32 k4) = Vec3f (Bits 0) (Bits 0) (Bits 925353388)"
    by (simp add: skin_values)
  from l1 a1 l2 a2 e a3 show ?thesis by blast
qed

text \<open>
  The first pass through the loop body from the ray \<open>hitOrig\<close>: the traversal finds the
  triangle, and the sampler at the entry point answers a reflection.
\<close>

lemma bounce_cmp:
  "Bits 1065353216 < flit I32 (10 ^ 20)" "RAY_MIN I32 < Bits 1065353216"
  "\<not> flit I32 (10 ^ 10) < Bits 1065353216"
  by (simp_all add: I32_def RAY_MIN_def f32_eval)

lemma first_hit:
  "closestHit (Suc (Suc (Suc (Suc 0)))) I32 scene1 idle (startFrame testFrame 0 hitPoint3 (Vec3f 0 0 1))
   = Result ((initBounce I32 (startFrame testFrame 0 hitPoint3 (Vec3f 0 0 1)))
       \<lparr>hitTriAddr := 0, hitDistance := Bits 1065353216,
        trinormalK := Vec3f (Bits 0) (Bits 0) (Bits 1065353216),
        votes := Suc (votes testFrame), sceneT := Bits 1065353216,
        surfN := Vec3f (Bits 0) (Bits 0) (Bits 1065353216), geometryType := GEO_TRIANGLE\<rparr>)"
  using bounce_cmp
  by (simp add: closestHit_def initBounce_def startFrame_def probe_ray_hit probe_ray_up
      run_hit_nearest rbind_def Let_def)

lemma first_bounce:
  "\<exists>k1. bounce (Suc (Suc (Suc (Suc 0)))) I32 (testDevice 1 True hitPoint3) scene1 idle testProbe
          (startFrame testFrame 0 hitPoint3 (Vec3f 0 0 1)) = Result (Break k1)"
  using bounce_cmp
  apply (simp add: bounce_def first_hit rbind_def)
  apply (simp add: initBounce_def startFrame_def mediaStep_def surfaceStep_def
      describeTriangle_def GEO_TRIANGLE_def Let_def rbind_def shade_def shadeSubsurface_def
      entrySample_def rd_def dev_fields split: prod.splits)
  done

text \<open>
  Witness of C8: the head of the second pass, for \<open>medium\<close>; and the first pass, where the
  traversal returns, for the block of the participating media.
\<close>

theorem medium_stays_MEDIUM_NO_and_media_block_is_skipped_witness:
  "(\<exists>k1. frameAt (Suc 0) (Suc (Suc (Suc (Suc 0)))) I32 (testDevice 1 True hitPoint3) scene1 idle
            testProbe (startFrame testFrame 0 hitPoint3 (Vec3f 0 0 1)) = Some k1
          \<and> medium k1 = MEDIUM_NO)
   \<and> frameAt 0 (Suc (Suc (Suc (Suc 0)))) I32 (testDevice 1 True hitPoint3) scene1 idle
            testProbe (startFrame testFrame 0 hitPoint3 (Vec3f 0 0 1))
        = Some (startFrame testFrame 0 hitPoint3 (Vec3f 0 0 1))
   \<and> medium (startFrame testFrame 0 hitPoint3 (Vec3f 0 0 1)) = MEDIUM_NO
   \<and> (\<exists>k2. closestHit (Suc (Suc (Suc (Suc 0)))) I32 scene1 idle
              (startFrame testFrame 0 hitPoint3 (Vec3f 0 0 1)) = Result k2
            \<and> medium k2 = MEDIUM_NO
            \<and> mediaStep I32 (testDevice 1 True hitPoint3) k2 = (k2, False))"
proof -
  note thm8 = medium_stays_MEDIUM_NO_and_media_block_is_skipped
  let ?f = "Suc (Suc (Suc (Suc 0)))"
  let ?D = "testDevice 1 True hitPoint3"
  let ?k = "startFrame testFrame 0 hitPoint3 (Vec3f 0 0 1)"
  from first_bounce obtain k1 where
    b: "bounce ?f I32 ?D scene1 idle testProbe ?k = Result (Break k1)" by blast
  then have f1: "frameAt (Suc 0) ?f I32 ?D scene1 idle testProbe ?k = Some k1"
    by (simp add: LIGHT_BOUNCE_def)
  from thm8[OF f1] have m1: "medium k1 = MEDIUM_NO" by simp
  have f0: "frameAt 0 ?f I32 ?D scene1 idle testProbe ?k = Some ?k" by simp
  from first_hit obtain k2 where c: "closestHit ?f I32 scene1 idle ?k = Result k2" by blast
  from thm8[OF f0] c
  have m0: "medium ?k = MEDIUM_NO" "medium k2 = MEDIUM_NO" "mediaStep I32 ?D k2 = (k2, False)"
    by simp_all
  from f1 m1 f0 m0 c show ?thesis by blast
qed

end
